theory Spec2Isabelle
  imports Complex_Main "HOL-Library.Word"
begin

section \<open>Product demand forecast: the data model of app.py\<close>

text \<open>
  The program is a Flask application over one pandas DataFrame that is read at import
  time. The embedding keeps pandas, statsmodels and matplotlib at the level of what
  their documented operations return: a DataFrame is a list of rows, a Series is a
  list of (year, value) points in index order, and every library call that can raise
  returns a sum whose left injection is the exception.
\<close>

type_synonym int64 = "64 word"

datatype exn = FileNotFoundError | TypeError | ValueError | KeyError | LinAlgError

record timestamp =
  year :: int
  month :: nat
  day :: nat

text \<open>
  A cell of the \<open>Date\<close> column. The CSV gives text; \<open>pd.to_datetime(..., errors='coerce')\<close>
  turns text it can read into a Timestamp and everything else (other text, a missing cell,
  a date outside the Timestamp range) into NaT. \<open>DateText t\<close> stands for a text cell that
  the parser reads as \<open>t\<close>, \<open>BadText\<close> for a cell it cannot read.
\<close>

datatype date_cell = DateText timestamp | BadText | Stamp timestamp | NaT

text \<open>
  A cell of the \<open>Order_Demand\<close> column as read from the CSV: \<open>Numeric q\<close> is text that
  \<open>pd.to_numeric\<close> followed by \<open>astype(int)\<close> turns into the 64-bit integer \<open>q\<close>
  (\<open>-5\<close> is such a text), \<open>NonNumeric\<close> is text that \<open>errors='coerce'\<close> turns into NaN
  (the dataset writes some quantities as \<open>(100)\<close>, which is such a text).
\<close>

datatype demand_cell = Numeric int64 | NonNumeric

record 'q row =
  Product_Code :: string
  Date :: date_cell
  Order_Demand :: 'q

text \<open>
  A DataFrame object: its rows, and whether \<open>set_index('Date')\<close> has made the
  \<open>Date\<close> column its index (a fresh frame has the default range index).
\<close>

record frame =
  rows :: "int64 row list"
  Date_is_index :: bool

text \<open>
  A Series after \<open>resample\<close>: points in index order; the index is the year-end Timestamp of a
  calendar year, of which the program only ever reads \<open>.year\<close>. \<open>None\<close> is NaN.
\<close>

type_synonym series = "(int \<times> int64 option) list"

section \<open>Startup: lines 11-22\<close>

definition to_numeric_coerce :: "demand_cell \<Rightarrow> int64 option" where
  "to_numeric_coerce c = (case c of Numeric q \<Rightarrow> Some q | NonNumeric \<Rightarrow> None)"

text \<open>
  \<open>to_numeric\<close>, \<open>dropna(subset=['Order_Demand'])\<close> and \<open>astype(int)\<close>: a row is kept, in
  its place, exactly when its quantity is not NaN after coercion.
\<close>

definition load_rows :: "demand_cell row list \<Rightarrow> int64 row list" where
  "load_rows csv =
     List.map_filter
       (\<lambda>r. map_option
               (\<lambda>q. \<lparr>Product_Code = Product_Code r, Date = Date r, Order_Demand = q\<rparr>)
               (to_numeric_coerce (Order_Demand r)))
       csv"

text \<open>
  The object store: DataFrame objects by address. The module-level name \<open>data\<close> is bound
  once, to the object at address \<open>data_ref\<close>; \<open>.copy()\<close> allocates a new object, and the
  in-place operations of the request functions write the object they are called on.
\<close>

type_synonym heap = "frame list"

definition data_ref :: nat where
  "data_ref = 0"

text \<open>
  \<open>read_csv\<close> raises when the file is missing; both \<open>except\<close> clauses call \<open>exit()\<close>, so
  the process then never serves (\<open>None\<close>).
\<close>

definition startup :: "exn + demand_cell row list \<Rightarrow> heap option" where
  "startup file =
     (case file of
        Inl e \<Rightarrow> None
      | Inr csv \<Rightarrow> Some [\<lparr>rows = load_rows csv, Date_is_index = False\<rparr>])"

text \<open>\<open>data['Product_Code'].unique().tolist()\<close>: distinct values in order of first appearance.\<close>

fun unique :: "'a list \<Rightarrow> 'a list" where
  "unique [] = []"
| "unique (x # xs) = x # filter (\<lambda>y. y \<noteq> x) (unique xs)"

definition products_of :: "heap \<Rightarrow> string list" where
  "products_of h = unique (map Product_Code (rows (h ! data_ref)))"

section \<open>pandas operations used by the request functions\<close>

text \<open>\<open>df[mask].copy()\<close>: a new object holding the selected rows; the source object is only read.\<close>

definition select_copy :: "heap \<Rightarrow> nat \<Rightarrow> (int64 row \<Rightarrow> bool) \<Rightarrow> nat \<times> heap" where
  "select_copy h src P =
     (length h, h @ [\<lparr>rows = filter P (rows (h ! src)), Date_is_index = Date_is_index (h ! src)\<rparr>])"

definition empty_frame :: "frame \<Rightarrow> bool" where
  "empty_frame f = (rows f = [])"

definition to_datetime_coerce :: "date_cell \<Rightarrow> date_cell" where
  "to_datetime_coerce c =
     (case c of DateText t \<Rightarrow> Stamp t | BadText \<Rightarrow> NaT | Stamp t \<Rightarrow> Stamp t | NaT \<Rightarrow> NaT)"

text \<open>Assigning the converted column to the frame at address \<open>p\<close> (a write to that object).\<close>

definition assign_Date :: "heap \<Rightarrow> nat \<Rightarrow> (date_cell \<Rightarrow> date_cell) \<Rightarrow> heap" where
  "assign_Date h p conv =
     h[p := (h ! p)\<lparr>rows := map (\<lambda>r. r\<lparr>Date := conv (Date r)\<rparr>) (rows (h ! p))\<rparr>]"

text \<open>\<open>set_index('Date', inplace=True)\<close>.\<close>

definition set_index_Date :: "heap \<Rightarrow> nat \<Rightarrow> heap" where
  "set_index_Date h p = h[p := (h ! p)\<lparr>Date_is_index := True\<rparr>]"

definition is_datetime :: "date_cell \<Rightarrow> bool" where
  "is_datetime c = (case c of Stamp t \<Rightarrow> True | NaT \<Rightarrow> True | _ \<Rightarrow> False)"

text \<open>The rows whose index entry is a Timestamp, as (year, quantity); NaT rows fall in no bin.\<close>

definition dated_points :: "int64 row list \<Rightarrow> (int \<times> int64) list" where
  "dated_points rs =
     List.map_filter
       (\<lambda>r. case Date r of Stamp t \<Rightarrow> Some (year t, Order_Demand r) | _ \<Rightarrow> None) rs"

text \<open>The sum of one yearly bin, in int64 arithmetic; an empty bin sums to 0.\<close>

definition bin_total :: "(int \<times> int64) list \<Rightarrow> int \<Rightarrow> int64" where
  "bin_total pts y = sum_list (map snd (filter (\<lambda>p. fst p = y) pts))"

text \<open>
  \<open>frame['Order_Demand'].resample('Y').sum()\<close>. pandas raises TypeError unless the index is
  datetime-like. The bins are the calendar years from the year of the earliest Timestamp
  to the year of the latest one, every year between them included; with only NaT in a
  non-empty index the bin edges cannot be built and pandas raises ValueError.
\<close>

definition resample_Y_sum :: "frame \<Rightarrow> exn + series" where
  "resample_Y_sum f =
     (if \<not> (Date_is_index f \<and> list_all (\<lambda>r. is_datetime (Date r)) (rows f)) then Inl TypeError
      else if rows f = [] then Inr []
      else
        (case map fst (dated_points (rows f)) of
           [] \<Rightarrow> Inl ValueError
         | y # ys \<Rightarrow>
             Inr (map (\<lambda>b. (b, Some (bin_total (dated_points (rows f)) b)))
                      [fold min ys y .. fold max ys y])))"

text \<open>\<open>fillna(method='ffill')\<close>: a NaN takes the last value before it that is not NaN, if any.\<close>

fun ffill_from :: "int64 option \<Rightarrow> series \<Rightarrow> series" where
  "ffill_from prev [] = []"
| "ffill_from prev ((y, None) # s) = (y, prev) # ffill_from prev s"
| "ffill_from prev ((y, Some v) # s) = (y, Some v) # ffill_from (Some v) s"

definition fillna_ffill :: "series \<Rightarrow> series" where
  "fillna_ffill s = ffill_from None s"

text \<open>\<open>s[s.index.year >= 2015]\<close> and \<open>s[s.index.year <= 2024]\<close>.\<close>

definition year_ge :: "int \<Rightarrow> series \<Rightarrow> series" where
  "year_ge lo s = filter (\<lambda>p. fst p \<ge> lo) s"

definition year_le :: "int \<Rightarrow> series \<Rightarrow> series" where
  "year_le hi s = filter (\<lambda>p. fst p \<le> hi) s"

section \<open>prepare_data and get_yearly_demand: lines 23-39 and 64-82\<close>

text \<open>The body of the \<open>try\<close> of \<open>prepare_data\<close>; \<open>Inl\<close> is an exception raised inside it.\<close>

definition prepare_data_try :: "heap \<Rightarrow> nat \<Rightarrow> (exn + series) \<times> heap" where
  "prepare_data_try h product_data =
     (let h1 = assign_Date h product_data to_datetime_coerce;
          h2 = set_index_Date h1 product_data
      in (case resample_Y_sum (h2 ! product_data) of
            Inl e \<Rightarrow> (Inl e, h2)
          | Inr order_demand \<Rightarrow>
              (Inr (year_le 2024 (year_ge 2015 (fillna_ffill order_demand))), h2)))"

definition prepare_data :: "heap \<Rightarrow> string \<Rightarrow> series \<times> heap" where
  "prepare_data h product_code =
     (let (product_data, h1) = select_copy h data_ref (\<lambda>r. Product_Code r = product_code)
      in if empty_frame (h1 ! product_data) then ([], h1)
         else (case prepare_data_try h1 product_data of
                 (Inl e, h2) \<Rightarrow> ([], h2)
               | (Inr order_demand, h2) \<Rightarrow> (order_demand, h2)))"

definition get_yearly_demand_try :: "heap \<Rightarrow> nat \<Rightarrow> (exn + series) \<times> heap" where
  "get_yearly_demand_try h product_history =
     (let h1 = assign_Date h product_history to_datetime_coerce;
          h2 = set_index_Date h1 product_history
      in (case resample_Y_sum (h2 ! product_history) of
            Inl e \<Rightarrow> (Inl e, h2)
          | Inr yearly_demand \<Rightarrow> (Inr (year_le 2024 (year_ge 2015 yearly_demand)), h2)))"

text \<open>The result \<open>None\<close> is Python's \<open>None\<close>.\<close>

definition get_yearly_demand :: "heap \<Rightarrow> string \<Rightarrow> series option \<times> heap" where
  "get_yearly_demand h product_code =
     (let (product_history, h1) = select_copy h data_ref (\<lambda>r. Product_Code r = product_code)
      in if empty_frame (h1 ! product_history) then (None, h1)
         else (case get_yearly_demand_try h1 product_history of
                 (Inl e, h2) \<Rightarrow> (None, h2)
               | (Inr yearly_demand, h2) \<Rightarrow> (Some yearly_demand, h2)))"

section \<open>Python strings and dicts used by the handler\<close>

text \<open>\<open>str(n)\<close> for an int: decimal digits, with a minus sign for a negative number.\<close>

definition digit_char :: "nat \<Rightarrow> char" where
  "digit_char d = char_of (48 + d)"

fun str_nat :: "nat \<Rightarrow> string" where
  "str_nat n = (if n < 10 then [digit_char n] else str_nat (n div 10) @ [digit_char (n mod 10)])"

declare str_nat.simps [simp del]

definition str :: "int \<Rightarrow> string" where
  "str i = (if i < 0 then CHR ''-'' # str_nat (nat (- i)) else str_nat (nat i))"

text \<open>
  \<open>int(s)\<close> on a decimal literal with an optional minus sign; ValueError on text that is
  no number. (Python also accepts a plus sign, blanks around the literal and underscores
  between digits; the handler only ever applies \<open>int\<close> to keys it built with \<open>str\<close>.)
\<close>

definition is_digit :: "char \<Rightarrow> bool" where
  "is_digit c = (48 \<le> (of_char c :: nat) \<and> (of_char c :: nat) \<le> 57)"

definition digit_val :: "char \<Rightarrow> nat" where
  "digit_val c = of_char c - 48"

definition nat_of_digits :: "string \<Rightarrow> nat" where
  "nat_of_digits ds = foldl (\<lambda>a c. 10 * a + digit_val c) 0 ds"

definition int_nat :: "string \<Rightarrow> exn + nat" where
  "int_nat ds = (if ds \<noteq> [] \<and> list_all is_digit ds then Inr (nat_of_digits ds) else Inl ValueError)"

definition int_py :: "string \<Rightarrow> exn + int" where
  "int_py s =
     (case s of
        [] \<Rightarrow> Inl ValueError
      | c # ds \<Rightarrow>
          if c = CHR ''-'' then map_sum id (\<lambda>n. - int n) (int_nat ds)
          else map_sum id int (int_nat s))"

text \<open>
  A dict: an association list with distinct keys, in insertion order. \<open>d[k] = v\<close> keeps the
  place of a key that is already there; a comprehension stores its items one after another.
\<close>

type_synonym ('k, 'v) dict = "('k \<times> 'v) list"

fun dict_set :: "('k, 'v) dict \<Rightarrow> 'k \<Rightarrow> 'v \<Rightarrow> ('k, 'v) dict" where
  "dict_set [] k v = [(k, v)]"
| "dict_set ((k', v') # d) k v = (if k' = k then (k', v) # d else (k', v') # dict_set d k v)"

definition dict_of :: "('k \<times> 'v) list \<Rightarrow> ('k, 'v) dict" where
  "dict_of kvs = foldl (\<lambda>d kv. dict_set d (fst kv) (snd kv)) [] kvs"

definition dict_get :: "('k, 'v) dict \<Rightarrow> 'k \<Rightarrow> exn + 'v" where
  "dict_get d k = (case map_of d k of None \<Rightarrow> Inl KeyError | Some v \<Rightarrow> Inr v)"

text \<open>A list comprehension whose element expression may raise: the first exception wins.\<close>

fun collect :: "('a \<Rightarrow> exn + 'b) \<Rightarrow> 'a list \<Rightarrow> exn + 'b list" where
  "collect f [] = Inr []"
| "collect f (x # xs) =
     (case f x of
        Inl e \<Rightarrow> Inl e
      | Inr y \<Rightarrow> (case collect f xs of Inl e \<Rightarrow> Inl e | Inr ys \<Rightarrow> Inr (y # ys)))"

section \<open>The forecaster: lines 43-60\<close>

text \<open>
  What the program calls in statsmodels and matplotlib is not part of the repository and
  computes in floating point; it is a parameter of the model. \<open>'m\<close> is a fitted model and
  \<open>'v\<close> a predicted value. \<open>ARIMA_fit s order\<close> is \<open>ARIMA(s, order=order).fit()\<close>,
  \<open>model_forecast m steps\<close> is \<open>m.forecast(steps=steps)\<close>, \<open>rasterise_png\<close> is what the
  renderer gives for a figure whose image is within its size limit (the bytes of a PNG
  file, or an exception), and \<open>format_0f\<close> is the format \<open>:.0f\<close>.
  The program has no check of its own on the length of the series it fits: on which series
  the fit raises is the library's matter, and \<open>train_arima\<close> only turns an exception of
  the fit into \<open>None\<close>.

  A figure records its size in inches, what is drawn, the axis labels, the title and the
  x limits; colours, markers, legend, grid and tick rotation are the same in every call
  and are left out. \<open>Plot\<close> is a line of \<open>ax.plot\<close>, clipped to the axes. \<open>Text x y s\<close> is
  \<open>ax.text(x, y, s, ha='center', va='center')\<close>: without a \<open>transform\<close> argument the
  point \<open>(x, y)\<close> is in data coordinates, and a text is not clipped to the axes.
  \<open>Annotate\<close> is \<open>ax.annotate\<close> at a data point.
\<close>

datatype 'v ydata = Historical "int64 option list" | Forecasted "'v list"

datatype 'v artist =
    Plot string "int list" "'v ydata"
  | Text rat rat string
  | Annotate string int 'v

record 'v figure =
  figsize :: "rat \<times> rat"
  artists :: "'v artist list"
  xlabel :: string
  ylabel :: string
  title :: string
  xlim :: "int \<times> int"

record ('m, 'v) lib =
  ARIMA_fit :: "series \<Rightarrow> nat \<times> nat \<times> nat \<Rightarrow> exn + 'm"
  model_forecast :: "'m \<Rightarrow> nat \<Rightarrow> exn + 'v list"
  rasterise_png :: "'v figure \<Rightarrow> exn + 8 word list"
  format_0f :: "'v \<Rightarrow> string"

definition train_arima :: "('m, 'v) lib \<Rightarrow> series \<Rightarrow> 'm option" where
  "train_arima lib data =
     (case ARIMA_fit lib data (5, 1, 0) of Inl e \<Rightarrow> None | Inr model_fit \<Rightarrow> Some model_fit)"

definition predict_demand :: "('m, 'v) lib \<Rightarrow> 'm \<Rightarrow> nat \<Rightarrow> 'v list option" where
  "predict_demand lib model_fit steps =
     (case model_forecast lib model_fit steps of Inl e \<Rightarrow> None | Inr fc \<Rightarrow> Some fc)"

section \<open>The chart renderer: lines 85-163\<close>

definition b64_alphabet :: string where
  "b64_alphabet = ''ABCDEFGHIJKLMNOPQRSTUVWXYZabcdefghijklmnopqrstuvwxyz0123456789+/''"

definition b64_char :: "nat \<Rightarrow> char" where
  "b64_char n = b64_alphabet ! n"

text \<open>\<open>base64.b64encode(bs).decode('utf-8')\<close>: three bytes give four characters, padded with =.\<close>

fun b64encode :: "8 word list \<Rightarrow> string" where
  "b64encode [] = []"
| "b64encode [a] =
     [b64_char (unat a div 4), b64_char (unat a mod 4 * 16), CHR ''='', CHR ''='']"
| "b64encode [a, b] =
     [b64_char (unat a div 4), b64_char (unat a mod 4 * 16 + unat b div 16),
      b64_char (unat b mod 16 * 4), CHR ''='']"
| "b64encode (a # b # c # bs) =
     [b64_char (unat a div 4), b64_char (unat a mod 4 * 16 + unat b div 16),
      b64_char (unat b mod 16 * 4 + unat c div 64), b64_char (unat c mod 64)] @ b64encode bs"

text \<open>Well-formed base64 text: groups of four alphabet characters, = only as final padding.\<close>

definition is_b64_char :: "char \<Rightarrow> bool" where
  "is_b64_char c = (c \<in> set b64_alphabet)"

fun valid_base64 :: "string \<Rightarrow> bool" where
  "valid_base64 [] = True"
| "valid_base64 [a, b, c, d] =
     (is_b64_char a \<and> is_b64_char b \<and>
      (if c = CHR ''='' then d = CHR ''='' else is_b64_char c \<and> (d = CHR ''='' \<or> is_b64_char d)))"
| "valid_base64 (a # b # c # d # s) =
     (is_b64_char a \<and> is_b64_char b \<and> is_b64_char c \<and> is_b64_char d \<and> valid_base64 s)"
| "valid_base64 s = False"

text \<open>
  \<open>plt.savefig(buffer, format='png', bbox_inches='tight')\<close>. With \<open>bbox_inches='tight'\<close>
  the image is the bounding box of everything drawn that is not clipped to the axes. At
  the default 100 dots per inch and the default subplot parameters the axes span the
  fractions 0.125 to 0.9 of the figure width, and a centred text covers its anchor, the
  point where its data coordinates fall. So the image is at least as wide as the span
  from the leftmost to the rightmost of the two axes edges and the text anchors
  (\<open>min_tight_width_px\<close>). The Agg renderer raises ValueError for an image of \<open>2 ^ 16\<close>
  pixels or more in a direction; only the width matters for the figures of this program.
\<close>

definition dpi :: rat where
  "dpi = 100"

definition axes_span_px :: "'v figure \<Rightarrow> rat \<times> rat" where
  "axes_span_px fig = (1 / 8 * fst (figsize fig) * dpi, 9 / 10 * fst (figsize fig) * dpi)"

definition data_x_px :: "'v figure \<Rightarrow> rat \<Rightarrow> rat" where
  "data_x_px fig x =
     (let (l, r) = axes_span_px fig; (lo, hi) = xlim fig
      in l + (x - of_int lo) / (of_int hi - of_int lo) * (r - l))"

definition text_anchors_px :: "'v figure \<Rightarrow> rat list" where
  "text_anchors_px fig =
     List.map_filter (\<lambda>a. case a of Text x y s \<Rightarrow> Some (data_x_px fig x) | _ \<Rightarrow> None)
       (artists fig)"

definition min_tight_width_px :: "'v figure \<Rightarrow> rat" where
  "min_tight_width_px fig =
     (let (l, r) = axes_span_px fig; xs = text_anchors_px fig
      in fold max xs r - fold min xs l)"

definition savefig_png :: "('m, 'v) lib \<Rightarrow> 'v figure \<Rightarrow> exn + 8 word list" where
  "savefig_png lib fig =
     (if 2 ^ 16 \<le> min_tight_width_px fig then Inl ValueError else rasterise_png lib fig)"

text \<open>
  Neither chart function catches anything: an exception of \<open>savefig\<close> leaves it. The
  placeholder text is placed at \<open>(0.5, 0.5)\<close> and the x limits are set afterwards.
\<close>

definition create_historical_plot ::
  "('m, 'v) lib \<Rightarrow> series \<Rightarrow> string \<Rightarrow> exn + string" where
  "create_historical_plot lib historical_data product_code =
     (let drawn =
            (if historical_data \<noteq> []
             then [Plot ''Historical Demand'' (map fst historical_data)
                        (Historical (map snd historical_data))]
             else [Text (1 / 2) (1 / 2)
                     ''No historical data available for the selected product between 2015-2024.'']);
          fig = \<lparr>figsize = (12, 7), artists = drawn, xlabel = ''Year'',
                 ylabel = ''Product Demand'',
                 title = ''Historical Yearly Demand for '' @ product_code @ '' '',
                 xlim = (2015 - 1, 2024 + 1)\<rparr>
      in map_sum id b64encode (savefig_png lib fig))"

definition create_forecast_plot ::
  "('m, 'v) lib \<Rightarrow> (string, 'v) dict \<Rightarrow> string \<Rightarrow> exn + string" where
  "create_forecast_plot lib forecast_data product_code =
     (case collect int_py (map fst forecast_data) of
        Inl e \<Rightarrow> Inl e
      | Inr all_years \<Rightarrow>
          (let forecast_years = filter (\<lambda>y. 2025 \<le> y \<and> y \<le> 2029) all_years
           in case collect (\<lambda>y. map_sum id (Pair y) (dict_get forecast_data (str y))) forecast_years of
                Inl e \<Rightarrow> Inl e
              | Inr items \<Rightarrow>
                  (let forecast_values = dict_of items;
                       drawn =
                         (if forecast_values \<noteq> []
                          then Plot ''Forecasted Demand '' forecast_years
                                    (Forecasted (map snd forecast_values))
                               # map (\<lambda>(y, demand). Annotate (format_0f lib demand) y demand)
                                     forecast_values
                          else [Text (1 / 2) (1 / 2)
                                  ''No forecast data available between 2025-2029.'']);
                       fig = \<lparr>figsize = (12, 7), artists = drawn, xlabel = ''Year'',
                              ylabel = ''Product Demand'',
                              title = ''Forecasted Yearly Demand for '' @ product_code @ '' '',
                              xlim = (2025 - 1, 2029 + 1)\<rparr>
                   in map_sum id b64encode (savefig_png lib fig))))"

section \<open>The template and the request handler: lines 170-348\<close>

text \<open>
  The variables passed to \<open>render_template_string\<close>. A variable that a call does not pass
  is undefined in the template, which tests it like \<open>None\<close>. \<open>yearly_demand_table\<close> and
  \<open>historical_demand_table\<close> are \<open>None\<close> in every call (\<open>get_printable_demand\<close> returns
  \<open>None\<close>).
\<close>

record 'v template_vars =
  products :: "string list"
  product_code :: "string option"
  forecast :: "(string, 'v) dict option"
  error :: "string option"
  yearly_demand_table :: "unit option"
  historical_plot_url :: "string option"
  forecast_plot_url :: "string option"
  historical_demand_table :: "unit option"

text \<open>What a rendered page shows, top to bottom: the template's blocks that are output.\<close>

datatype 'v block =
    SelectForm "string list"
  | Prediction string "(string, 'v) dict"
  | ErrorMessage string
  | HistoricalChart string string
  | ForecastChart string string
  | PrintButton

definition shown :: "string option \<Rightarrow> string" where
  "shown v = (case v of None \<Rightarrow> [] | Some s \<Rightarrow> s)"

text \<open>\<open>{% if x %}\<close>: \<open>None\<close>, an empty string and an empty dict are false.\<close>

definition truthy :: "'a list option \<Rightarrow> bool" where
  "truthy v = (case v of None \<Rightarrow> False | Some x \<Rightarrow> x \<noteq> [])"

definition render_template_string :: "'v template_vars \<Rightarrow> 'v block list" where
  "render_template_string c =
     [SelectForm (products c)]
     @ (if truthy (forecast c) then [Prediction (shown (product_code c)) (the (forecast c))] else [])
     @ (if truthy (error c) then [ErrorMessage (the (error c))] else [])
     @ (if truthy (historical_plot_url c)
        then [HistoricalChart (shown (product_code c)) (the (historical_plot_url c))] else [])
     @ (if truthy (forecast_plot_url c)
        then [ForecastChart (shown (product_code c)) (the (forecast_plot_url c))] else [])
     @ [PrintButton]"

datatype request = GET | POST "string \<rightharpoonup> string"

text \<open>
  A response: a rendered page, Flask's 400 for a form without the field that
  \<open>request.form['product_code']\<close> reads, or the 500 of an exception no handler catches.
\<close>

datatype 'v response = Page "'v block list" | BadRequest | InternalServerError exn

text \<open>Line 338: the predicted values keyed by the years after the last one of the series.\<close>

definition forecast_by_year :: "series \<Rightarrow> 'v list \<Rightarrow> (string, 'v) dict" where
  "forecast_by_year series forecast_values =
     dict_of (map (\<lambda>(i, demand). (str (fst (last series) + int i + 1), demand))
                  (enumerate 0 forecast_values))"

text \<open>Line 340: the items whose year is in 2025-2029.\<close>

definition forecast_window :: "(string, 'v) dict \<Rightarrow> exn + (string, 'v) dict" where
  "forecast_window fc =
     map_sum id (\<lambda>kept. dict_of (map snd (filter (\<lambda>(y, kv). 2025 \<le> y \<and> y \<le> 2029) kept)))
       (collect (\<lambda>kv. map_sum id (\<lambda>y. (y, kv)) (int_py (fst kv))) fc)"

definition initial_vars :: "string list \<Rightarrow> 'v template_vars" where
  "initial_vars ps =
     \<lparr>products = ps, product_code = None, forecast = None, error = None,
      yearly_demand_table = None, historical_plot_url = None, forecast_plot_url = None,
      historical_demand_table = None\<rparr>"

text \<open>
  The POST branch of \<open>index\<close> up to the variables it renders; \<open>Inl\<close> is an exception that
  leaves the handler. \<open>ps\<close> is the module-level list \<open>products\<close>.
\<close>

definition index_post ::
  "('m, 'v) lib \<Rightarrow> string list \<Rightarrow> heap \<Rightarrow> string \<Rightarrow> (exn + 'v template_vars) \<times> heap" where
  "index_post lib ps h code =
     (let (series, h1) = prepare_data h code;
          (historical_data, h2) = get_yearly_demand h1 code;
          c = (initial_vars ps)\<lparr>product_code := Some code\<rparr>
      in if series = [] \<or> historical_data = None \<or> historical_data = Some []
         then (Inr (c\<lparr>error := Some ''No data found for this product or no data between 2015-2024.''\<rparr>), h2)
         else
           (case train_arima lib series of
              None \<Rightarrow> (Inr (c\<lparr>error := Some ''Failed to train ARIMA model.''\<rparr>), h2)
            | Some model_fit \<Rightarrow>
                (case predict_demand lib model_fit 5 of
                   None \<Rightarrow> (Inr (c\<lparr>error := Some ''Failed to generate forecast.''\<rparr>), h2)
                 | Some forecast_values \<Rightarrow>
                     (case forecast_window (forecast_by_year series forecast_values) of
                        Inl e \<Rightarrow> (Inl e, h2)
                      | Inr fc \<Rightarrow>
                          (case create_historical_plot lib (the historical_data) code of
                             Inl e \<Rightarrow> (Inl e, h2)
                           | Inr hist_url \<Rightarrow>
                               (case create_forecast_plot lib fc code of
                                  Inl e \<Rightarrow> (Inl e, h2)
                                | Inr fc_url \<Rightarrow>
                                    (Inr (c\<lparr>forecast := Some fc,
                                            historical_plot_url := Some hist_url,
                                            forecast_plot_url := Some fc_url\<rparr>), h2)))))))"

definition index :: "('m, 'v) lib \<Rightarrow> string list \<Rightarrow> heap \<Rightarrow> request \<Rightarrow> 'v response \<times> heap" where
  "index lib ps h req =
     (case req of
        GET \<Rightarrow> (Page (render_template_string (initial_vars ps)), h)
      | POST form \<Rightarrow>
          (case form ''product_code'' of
             None \<Rightarrow> (BadRequest, h)
           | Some code \<Rightarrow>
               (case index_post lib ps h code of
                  (Inl e, h') \<Rightarrow> (InternalServerError e, h')
                | (Inr c, h') \<Rightarrow> (Page (render_template_string c), h'))))"

text \<open>
  The server handles one request after another (\<open>app.run\<close>, single process): each call
  of \<open>index\<close> starts from the store the previous one left.
\<close>

fun serve ::
  "('m, 'v) lib \<Rightarrow> string list \<Rightarrow> heap \<Rightarrow> request list \<Rightarrow> 'v response list \<times> heap" where
  "serve lib ps h [] = ([], h)"
| "serve lib ps h (req # reqs) =
     (let (r, h1) = index lib ps h req; (rs, h2) = serve lib ps h1 reqs in (r # rs, h2))"

section \<open>Notions used to state the properties\<close>

text \<open>The rows of the dataset that carry a product code.\<close>

definition product_rows :: "heap \<Rightarrow> string \<Rightarrow> int64 row list" where
  "product_rows h code = filter (\<lambda>r. Product_Code r = code) (rows (h ! data_ref))"

text \<open>The local frame of a request function after the date conversion and \<open>set_index\<close>.\<close>

definition converted :: "int64 row list \<Rightarrow> frame" where
  "converted rs =
     \<lparr>rows = map (\<lambda>r. r\<lparr>Date := to_datetime_coerce (Date r)\<rparr>) rs, Date_is_index = True\<rparr>"

text \<open>The records of a product that have a readable date, as (year, quantity), and their years.\<close>

definition record_points :: "heap \<Rightarrow> string \<Rightarrow> (int \<times> int64) list" where
  "record_points h code = dated_points (rows (converted (product_rows h code)))"

definition record_years :: "heap \<Rightarrow> string \<Rightarrow> int list" where
  "record_years h code = map fst (record_points h code)"

text \<open>A dict of values by year, as the handler keys it: each year written with \<open>str\<close>.\<close>

definition keyed :: "(int \<times> 'v) list \<Rightarrow> (string, 'v) dict" where
  "keyed yv = map (\<lambda>p. (str (fst p), snd p)) yv"

text \<open>The forecast window of lines 124 and 340.\<close>

definition in_window :: "int \<Rightarrow> bool" where
  "in_window y = (2025 \<le> y \<and> y \<le> 2029)"

text \<open>The predicted values paired with the years that follow the last year of the series.\<close>

definition forecast_points :: "series \<Rightarrow> 'v list \<Rightarrow> (int \<times> 'v) list" where
  "forecast_points S fv = zip (map (\<lambda>i. fst (last S) + int i + 1) [0..<length fv]) fv"

text \<open>The predicted points whose year is in the forecast window.\<close>

definition displayed_forecast :: "series \<Rightarrow> 'v list \<Rightarrow> (int \<times> 'v) list" where
  "displayed_forecast S fv = filter (\<lambda>p. in_window (fst p)) (forecast_points S fv)"

text \<open>The figure that \<open>create_forecast_plot\<close> draws for points inside the window.\<close>

definition forecast_figure :: "('m, 'v) lib \<Rightarrow> string \<Rightarrow> (int \<times> 'v) list \<Rightarrow> 'v figure" where
  "forecast_figure lib code w =
     \<lparr>figsize = (12, 7),
      artists =
        (if w \<noteq> []
         then Plot ''Forecasted Demand '' (map fst w) (Forecasted (map snd w))
              # map (\<lambda>(y, demand). Annotate (format_0f lib demand) y demand) w
         else [Text (1 / 2) (1 / 2) ''No forecast data available between 2025-2029.'']),
      xlabel = ''Year'', ylabel = ''Product Demand'',
      title = ''Forecasted Yearly Demand for '' @ code @ '' '',
      xlim = (2024, 2030)\<rparr>"

text \<open>The template variables of an error return of the handler.\<close>

definition error_vars :: "string list \<Rightarrow> string \<Rightarrow> string \<Rightarrow> 'v template_vars" where
  "error_vars ps code msg =
     \<lparr>products = ps, product_code = Some code, forecast = None, error = Some msg,
      yearly_demand_table = None, historical_plot_url = None, forecast_plot_url = None,
      historical_demand_table = None\<rparr>"

text \<open>
  The template variables of the final return of the POST branch, for the two encoded
  images that the chart functions returned.
\<close>

definition success_vars ::
  "string list \<Rightarrow> string \<Rightarrow> series \<Rightarrow> 'v list \<Rightarrow> string \<Rightarrow> string \<Rightarrow> 'v template_vars" where
  "success_vars ps code S fv hist_url fc_url =
     \<lparr>products = ps, product_code = Some code,
      forecast = Some (keyed (displayed_forecast S fv)), error = None,
      yearly_demand_table = None,
      historical_plot_url = Some hist_url,
      forecast_plot_url = Some fc_url,
      historical_demand_table = None\<rparr>"

text \<open>A page that shows the form, one error message and the print button, and nothing else.\<close>

definition error_page :: "string list \<Rightarrow> string \<Rightarrow> 'v response" where
  "error_page ps msg = Page [SelectForm ps, ErrorMessage msg, PrintButton]"

text \<open>What the body of the \<open>try\<close> of \<open>prepare_data\<close> gives for a product code.\<close>

definition try_result :: "heap \<Rightarrow> string \<Rightarrow> exn + series" where
  "try_result h code =
     fst (prepare_data_try (snd (select_copy h data_ref (\<lambda>r. Product_Code r = code)))
            (fst (select_copy h data_ref (\<lambda>r. Product_Code r = code))))"


section \<open>An example dataset\<close>

text \<open>
  Product A1 is the end-to-end example of the specification (100 in 2015, 120 in 2016);
  B2 has records in 2013, 2015 and 2017 but none in 2014 or 2016; C3 has a date that
  cannot be read; D4 has a quantity that is no number and a negative one; E5 has records
  in each of 2020 to 2024.
\<close>

definition csv_row :: "string \<Rightarrow> date_cell \<Rightarrow> demand_cell \<Rightarrow> demand_cell row" where
  "csv_row c d q = \<lparr>Product_Code = c, Date = d, Order_Demand = q\<rparr>"

definition ymd :: "int \<Rightarrow> nat \<Rightarrow> nat \<Rightarrow> date_cell" where
  "ymd y m d = DateText \<lparr>year = y, month = m, day = d\<rparr>"

definition example_csv :: "demand_cell row list" where
  "example_csv =
     [csv_row ''A1'' (ymd 2015 3 1) (Numeric 60),
      csv_row ''B2'' (ymd 2013 1 8) (Numeric 7),
      csv_row ''A1'' (ymd 2016 2 1) (Numeric 120),
      csv_row ''B2'' (ymd 2017 5 2) (Numeric 30),
      csv_row ''A1'' (ymd 2015 7 9) (Numeric 40),
      csv_row ''B2'' (ymd 2015 5 2) (Numeric 10),
      csv_row ''C3'' BadText (Numeric 5),
      csv_row ''D4'' (ymd 2020 1 1) NonNumeric,
      csv_row ''D4'' (ymd 2020 6 1) (Numeric (- 5)),
      csv_row ''E5'' (ymd 2020 1 1) (Numeric 1),
      csv_row ''E5'' (ymd 2021 1 1) (Numeric 2),
      csv_row ''E5'' (ymd 2022 1 1) (Numeric 3),
      csv_row ''E5'' (ymd 2023 1 1) (Numeric 4),
      csv_row ''E5'' (ymd 2024 1 1) (Numeric 5)]"

definition example_heap :: heap where
  "example_heap = [\<lparr>rows = load_rows example_csv, Date_is_index = False\<rparr>]"

text \<open>
  A stand-in for the libraries, to run the handler on the example: a fit that fails on
  fewer than three points, a forecast that repeats a constant, a two-byte image for every
  figure within the size limit.
\<close>

definition example_lib :: "(series, int) lib" where
  "example_lib =
     \<lparr>ARIMA_fit = (\<lambda>s order. if length s < 3 then Inl ValueError else Inr s),
      model_forecast = (\<lambda>m steps. Inr (replicate steps 42)),
      rasterise_png = (\<lambda>fig. Inr [137, 80]),
      format_0f = (\<lambda>v. str v)\<rparr>"

section \<open>Facts about the pandas operations\<close>

lemma select_copy_fst: "fst (select_copy h src P) = length h"
  by (simp add: select_copy_def)

lemma select_copy_new:
  "snd (select_copy h src P) ! length h =
     \<lparr>rows = filter P (rows (h ! src)), Date_is_index = Date_is_index (h ! src)\<rparr>"
  by (simp add: select_copy_def)

lemma window_bounds:
  "p \<in> set (year_le 2024 (year_ge 2015 s)) \<Longrightarrow> 2015 \<le> fst p \<and> fst p \<le> 2024"
  by (simp add: year_le_def year_ge_def)

lemma prepare_data_try_window:
  assumes "fst (prepare_data_try h p) = Inr s" and "pt \<in> set s"
  shows "2015 \<le> fst pt \<and> fst pt \<le> 2024"
  using assms
  by (auto simp: prepare_data_try_def Let_def year_le_def year_ge_def split: sum.splits)

lemma get_yearly_demand_try_window:
  assumes "fst (get_yearly_demand_try h p) = Inr s" and "pt \<in> set s"
  shows "2015 \<le> fst pt \<and> fst pt \<le> 2024"
  using assms
  by (auto simp: get_yearly_demand_try_def Let_def year_le_def year_ge_def split: sum.splits)


lemma frame_update_eq:
  "(f :: frame)\<lparr>rows := a, Date_is_index := b\<rparr> = \<lparr>rows = a, Date_is_index = b\<rparr>"
  by (cases f) simp

lemma prepare_data_try_fst:
  assumes "p < length h"
  shows "fst (prepare_data_try h p) =
           map_sum id (\<lambda>s. year_le 2024 (year_ge 2015 (fillna_ffill s)))
             (resample_Y_sum (converted (rows (h ! p))))"
  using assms
  by (simp add: prepare_data_try_def Let_def assign_Date_def set_index_Date_def converted_def
      frame_update_eq split: sum.splits)

lemma get_yearly_demand_try_fst:
  assumes "p < length h"
  shows "fst (get_yearly_demand_try h p) =
           map_sum id (\<lambda>s. year_le 2024 (year_ge 2015 s))
             (resample_Y_sum (converted (rows (h ! p))))"
  using assms
  by (simp add: get_yearly_demand_try_def Let_def assign_Date_def set_index_Date_def converted_def
      frame_update_eq split: sum.splits)

lemma prepare_data_try_heap:
  assumes "q < length h" "q \<noteq> p"
  shows "snd (prepare_data_try h p) ! q = h ! q" "length (snd (prepare_data_try h p)) = length h"
  using assms
  by (simp_all add: prepare_data_try_def Let_def assign_Date_def set_index_Date_def
      split: sum.splits)

lemma get_yearly_demand_try_heap:
  assumes "q < length h" "q \<noteq> p"
  shows "snd (get_yearly_demand_try h p) ! q = h ! q"
    "length (snd (get_yearly_demand_try h p)) = length h"
  using assms
  by (simp_all add: get_yearly_demand_try_def Let_def assign_Date_def set_index_Date_def
      split: sum.splits)

lemma prepare_data_fst:
  assumes "data_ref < length h"
  shows "fst (prepare_data h code) =
           (if product_rows h code = [] then []
            else case resample_Y_sum (converted (product_rows h code)) of
                   Inl e \<Rightarrow> []
                 | Inr s \<Rightarrow> year_le 2024 (year_ge 2015 (fillna_ffill s)))"
proof -
  let ?h1 = "snd (select_copy h data_ref (\<lambda>r. Product_Code r = code))"
  have new: "rows (?h1 ! length h) = product_rows h code"
    using assms by (simp add: select_copy_def product_rows_def nth_append)
  have len: "length h < length ?h1"
    by (simp add: select_copy_def)
  show ?thesis
  proof (cases "product_rows h code = []")
    case True
    then show ?thesis
      using new by (simp add: prepare_data_def select_copy_def empty_frame_def split_def Let_def)
  next
    case False
    have "fst (prepare_data h code) =
            (case fst (prepare_data_try ?h1 (length h)) of Inl e \<Rightarrow> [] | Inr s \<Rightarrow> s)"
      using False new
      by (simp add: prepare_data_def select_copy_def empty_frame_def split_def Let_def
          split: sum.splits prod.splits)
    then show ?thesis
      using False new prepare_data_try_fst [OF len]
      by (simp split: sum.splits)
  qed
qed

lemma get_yearly_demand_fst:
  assumes "data_ref < length h"
  shows "fst (get_yearly_demand h code) =
           (if product_rows h code = [] then None
            else case resample_Y_sum (converted (product_rows h code)) of
                   Inl e \<Rightarrow> None
                 | Inr s \<Rightarrow> Some (year_le 2024 (year_ge 2015 s)))"
proof -
  let ?h1 = "snd (select_copy h data_ref (\<lambda>r. Product_Code r = code))"
  have new: "rows (?h1 ! length h) = product_rows h code"
    using assms by (simp add: select_copy_def product_rows_def nth_append)
  have len: "length h < length ?h1"
    by (simp add: select_copy_def)
  show ?thesis
  proof (cases "product_rows h code = []")
    case True
    then show ?thesis
      using new by (simp add: get_yearly_demand_def select_copy_def empty_frame_def split_def Let_def)
  next
    case False
    have "fst (get_yearly_demand h code) =
            (case fst (get_yearly_demand_try ?h1 (length h)) of Inl e \<Rightarrow> None | Inr s \<Rightarrow> Some s)"
      using False new
      by (simp add: get_yearly_demand_def select_copy_def empty_frame_def split_def Let_def
          split: sum.splits prod.splits)
    then show ?thesis
      using False new get_yearly_demand_try_fst [OF len]
      by (simp split: sum.splits)
  qed
qed

lemma prepare_data_heap:
  assumes "data_ref < length h"
  shows "snd (prepare_data h code) ! data_ref = h ! data_ref"
    and "data_ref < length (snd (prepare_data h code))"
proof -
  let ?h1 = "snd (select_copy h data_ref (\<lambda>r. Product_Code r = code))"
  have a: "data_ref < length ?h1" "data_ref \<noteq> length h" "?h1 ! data_ref = h ! data_ref"
    using assms by (simp_all add: select_copy_def nth_append)
  show "snd (prepare_data h code) ! data_ref = h ! data_ref"
    using a prepare_data_try_heap [OF a(1,2)]
    by (simp add: prepare_data_def select_copy_fst split_def Let_def split: sum.splits prod.splits)
  show "data_ref < length (snd (prepare_data h code))"
    using a prepare_data_try_heap [OF a(1,2)]
    by (simp add: prepare_data_def select_copy_fst split_def Let_def split: sum.splits prod.splits)
qed

lemma get_yearly_demand_heap:
  assumes "data_ref < length h"
  shows "snd (get_yearly_demand h code) ! data_ref = h ! data_ref"
    and "data_ref < length (snd (get_yearly_demand h code))"
proof -
  let ?h1 = "snd (select_copy h data_ref (\<lambda>r. Product_Code r = code))"
  have a: "data_ref < length ?h1" "data_ref \<noteq> length h" "?h1 ! data_ref = h ! data_ref"
    using assms by (simp_all add: select_copy_def nth_append)
  show "snd (get_yearly_demand h code) ! data_ref = h ! data_ref"
    using a get_yearly_demand_try_heap [OF a(1,2)]
    by (simp add: get_yearly_demand_def select_copy_fst split_def Let_def split: sum.splits prod.splits)
  show "data_ref < length (snd (get_yearly_demand h code))"
    using a get_yearly_demand_try_heap [OF a(1,2)]
    by (simp add: get_yearly_demand_def select_copy_fst split_def Let_def split: sum.splits prod.splits)
qed


lemma ffill_from_no_nan: "\<forall>p \<in> set s. snd p \<noteq> None \<Longrightarrow> ffill_from prev s = s"
  by (induction prev s rule: ffill_from.induct) auto

lemma is_datetime_coerce: "is_datetime (to_datetime_coerce c)"
  by (cases c) (simp_all add: is_datetime_def to_datetime_coerce_def)

lemma converted_datetime_index:
  "Date_is_index (converted rs) \<and> list_all (\<lambda>r. is_datetime (Date r)) (rows (converted rs))"
  by (simp add: converted_def list_all_iff is_datetime_coerce)

lemma rows_converted_Nil: "rows (converted rs) = [] \<longleftrightarrow> rs = []"
  by (simp add: converted_def)

lemma resample_converted:
  "resample_Y_sum (converted rs) =
     (if rs = [] then Inr []
      else case map fst (dated_points (rows (converted rs))) of
             [] \<Rightarrow> Inl ValueError
           | y # ys \<Rightarrow>
               Inr (map (\<lambda>b. (b, Some (bin_total (dated_points (rows (converted rs))) b)))
                        [Min (set (y # ys)) .. Max (set (y # ys))]))"
  using converted_datetime_index [of rs]
  by (simp add: resample_Y_sum_def rows_converted_Nil Min.set_eq_fold Max.set_eq_fold
      del: set_simps split: list.splits)

lemma resample_no_nan:
  assumes "resample_Y_sum f = Inr s" and "p \<in> set s"
  shows "snd p \<noteq> None"
  using assms
  by (auto simp: resample_Y_sum_def split: if_splits list.splits)

lemma resample_ffill:
  assumes "resample_Y_sum f = Inr s"
  shows "fillna_ffill s = s"
  unfolding fillna_ffill_def
  using resample_no_nan [OF assms] by (intro ffill_from_no_nan) blast

lemma dated_points_Nil: "product_rows h code = [] \<Longrightarrow> record_years h code = []"
  by (simp add: record_years_def record_points_def converted_def dated_points_def map_filter_simps)

lemma window_filter:
  "year_le 2024 (year_ge 2015 (map (\<lambda>b. (b, g b)) ys)) =
     map (\<lambda>b. (b, g b)) (filter (\<lambda>y. 2015 \<le> y \<and> y \<le> 2024) ys)"
  by (induction ys) (auto simp: year_le_def year_ge_def)

lemma prepare_data_series:
  assumes "data_ref < length h"
  shows "fst (prepare_data h code) =
           (if record_years h code = [] then []
            else map (\<lambda>y. (y, Some (bin_total (record_points h code) y)))
                   (filter (\<lambda>y. 2015 \<le> y \<and> y \<le> 2024)
                      [Min (set (record_years h code)) .. Max (set (record_years h code))]))"
proof (cases "product_rows h code = []")
  case True
  then show ?thesis
    using dated_points_Nil [OF True] by (simp add: prepare_data_fst [OF assms])
next
  case False
  show ?thesis
  proof (cases "record_years h code")
    case Nil
    then show ?thesis
      using False
      by (simp add: prepare_data_fst [OF assms] resample_converted record_years_def
          record_points_def)
  next
    case (Cons y ys)
    let ?s = "map (\<lambda>b. (b, Some (bin_total (record_points h code) b)))
                [Min (set (y # ys)) .. Max (set (y # ys))]"
    have r: "resample_Y_sum (converted (product_rows h code)) = Inr ?s"
      using False Cons
      by (simp add: resample_converted record_years_def record_points_def del: set_simps)
    have "fst (prepare_data h code) = year_le 2024 (year_ge 2015 (fillna_ffill ?s))"
      using False by (simp add: prepare_data_fst [OF assms] r del: set_simps)
    also have "fillna_ffill ?s = ?s"
      by (rule resample_ffill [OF r])
    finally show ?thesis
      using Cons by (simp add: window_filter del: set_simps)
  qed
qed

lemma prepare_eq_yearly:
  assumes "data_ref < length h"
  shows "fst (prepare_data h code) =
           (case fst (get_yearly_demand h code) of None \<Rightarrow> [] | Some s \<Rightarrow> s)"
proof (cases "resample_Y_sum (converted (product_rows h code))")
  case (Inl e)
  then show ?thesis
    by (simp add: prepare_data_fst [OF assms] get_yearly_demand_fst [OF assms])
next
  case (Inr s)
  then show ?thesis
    using resample_ffill [OF Inr]
    by (simp add: prepare_data_fst [OF assms] get_yearly_demand_fst [OF assms])
qed

section \<open>Facts about strings, dicts, charts and the handler\<close>

lemma is_digit_digit_char: "d < 10 \<Longrightarrow> is_digit (digit_char d)"
  by (simp add: is_digit_def digit_char_def)

lemma digit_val_digit_char: "d < 10 \<Longrightarrow> digit_val (digit_char d) = d"
  by (simp add: digit_val_def digit_char_def)

lemma str_nat_digits: "list_all is_digit (str_nat n)"
  by (induction n rule: str_nat.induct) (subst str_nat.simps, simp add: is_digit_digit_char)

lemma str_nat_nonempty: "str_nat n \<noteq> []"
  by (subst str_nat.simps) simp

lemma nat_of_digits_snoc: "nat_of_digits (ds @ [c]) = 10 * nat_of_digits ds + digit_val c"
  by (simp add: nat_of_digits_def)

lemma nat_of_digits_str_nat: "nat_of_digits (str_nat n) = n"
proof (induction n rule: str_nat.induct)
  case (1 n)
  show ?case
  proof (cases "n < 10")
    case True
    then show ?thesis
      by (subst str_nat.simps) (simp add: nat_of_digits_def digit_val_digit_char)
  next
    case False
    then show ?thesis
      using "1.IH" by (subst str_nat.simps) (simp add: nat_of_digits_snoc digit_val_digit_char)
  qed
qed

lemma int_nat_str_nat: "int_nat (str_nat n) = Inr n"
  by (simp add: int_nat_def str_nat_nonempty str_nat_digits nat_of_digits_str_nat)

lemma is_digit_not_minus: "is_digit c \<Longrightarrow> c \<noteq> CHR ''-''"
  by (auto simp: is_digit_def)

lemma str_nat_hd: "\<exists>c ds. str_nat n = c # ds \<and> c \<noteq> CHR ''-''"
proof -
  obtain c ds where e: "str_nat n = c # ds"
    using str_nat_nonempty [of n] by (cases "str_nat n") auto
  have "is_digit c"
    using str_nat_digits [of n] e by simp
  then show ?thesis
    using e is_digit_not_minus by blast
qed

lemma int_py_str: "int_py (str i) = Inr i"
proof (cases "i < 0")
  case True
  then show ?thesis
    by (simp add: int_py_def str_def int_nat_str_nat)
next
  case False
  obtain c ds where e: "str_nat (nat i) = c # ds" "c \<noteq> CHR ''-''"
    using str_nat_hd by blast
  have "int_nat (c # ds) = Inr (nat i)"
    using int_nat_str_nat [of "nat i"] e by simp
  then show ?thesis
    using False e by (simp add: int_py_def str_def)
qed

lemma str_inj: "str i = str j \<Longrightarrow> i = j"
  by (metis int_py_str sum.inject(2))

lemma inj_str: "inj str"
  by (rule injI) (rule str_inj)

lemma dict_set_fresh: "k \<notin> fst ` set d \<Longrightarrow> dict_set d k v = d @ [(k, v)]"
  by (induction d) auto

lemma dict_of_aux:
  "distinct (map fst (d @ kvs)) \<Longrightarrow>
     foldl (\<lambda>d kv. dict_set d (fst kv) (snd kv)) d kvs = d @ kvs"
proof (induction kvs arbitrary: d)
  case Nil
  then show ?case by simp
next
  case (Cons kv kvs)
  have "fst kv \<notin> fst ` set d"
    using Cons.prems by auto
  then have "dict_set d (fst kv) (snd kv) = d @ [kv]"
    by (simp add: dict_set_fresh)
  moreover have "distinct (map fst ((d @ [kv]) @ kvs))"
    using Cons.prems by simp
  ultimately show ?case
    using Cons.IH [of "d @ [kv]"] by simp
qed

lemma dict_of_distinct: "distinct (map fst kvs) \<Longrightarrow> dict_of kvs = kvs"
  using dict_of_aux [of "[]" kvs] by (simp add: dict_of_def)

lemma collect_total: "collect (\<lambda>x. Inr (g x)) xs = Inr (map g xs)"
  by (induction xs) simp_all

lemma collect_map: "collect f (map g xs) = collect (\<lambda>x. f (g x)) xs"
  by (induction xs) (simp_all split: sum.splits)

lemma collect_cong: "(\<And>x. x \<in> set xs \<Longrightarrow> f x = g x) \<Longrightarrow> collect f xs = collect g xs"
  by (induction xs) (simp_all split: sum.splits)

lemma keyed_keys_distinct: "distinct (map fst yv) \<Longrightarrow> distinct (map fst (keyed yv))"
proof -
  assume d: "distinct (map fst yv)"
  have "inj_on str (set (map fst yv))"
    by (rule inj_on_subset [OF inj_str]) simp
  with d have "distinct (map str (map fst yv))"
    by (rule distinct_map [THEN iffD2, OF conjI])
  then show ?thesis
    by (simp add: keyed_def comp_def)
qed

lemma forecast_by_year_keyed:
  "forecast_by_year series fv =
     keyed (zip (map (\<lambda>i. fst (last series) + int i + 1) [0..<length fv]) fv)"
proof -
  let ?L = "fst (last series)"
  let ?yv = "zip (map (\<lambda>i. ?L + int i + 1) [0..<length fv]) fv"
  have e: "map (\<lambda>(i, demand). (str (?L + int i + 1), demand)) (enumerate 0 fv) = keyed ?yv"
    by (simp add: keyed_def enumerate_eq_zip zip_map1 split_def)
  have "distinct (map (\<lambda>i. ?L + int i + 1) [0..<length fv])"
    by (simp add: distinct_map inj_on_def)
  then have "distinct (map fst ?yv)"
    by simp
  then show ?thesis
    unfolding forecast_by_year_def e by (intro dict_of_distinct keyed_keys_distinct)
qed

lemma forecast_window_keyed:
  assumes "distinct (map fst yv)"
  shows "forecast_window (keyed yv) = Inr (keyed (filter (\<lambda>p. in_window (fst p)) yv))"
proof -
  have c: "collect (\<lambda>kv. map_sum id (\<lambda>y. (y, kv)) (int_py (fst kv))) (keyed yv) =
             Inr (map (\<lambda>p. (fst p, (str (fst p), snd p))) yv)"
    by (simp add: keyed_def collect_map collect_total int_py_str)
  have f: "map snd (filter (\<lambda>(y, kv). 2025 \<le> y \<and> y \<le> 2029)
             (map (\<lambda>p. (fst p, (str (fst p), snd p))) yv)) =
           keyed (filter (\<lambda>p. in_window (fst p)) yv)"
    by (induction yv) (auto simp: keyed_def in_window_def)
  have "distinct (map fst (filter (\<lambda>p. in_window (fst p)) yv))"
    using assms by (simp add: distinct_map_filter)
  then have "dict_of (keyed (filter (\<lambda>p. in_window (fst p)) yv)) =
               keyed (filter (\<lambda>p. in_window (fst p)) yv)"
    by (intro dict_of_distinct keyed_keys_distinct)
  then show ?thesis
    by (simp add: forecast_window_def c f)
qed

lemma map_of_keyed:
  assumes "distinct (map fst yv)" and "p \<in> set yv"
  shows "map_of (keyed yv) (str (fst p)) = Some (snd p)"
proof -
  have "(str (fst p), snd p) \<in> set (keyed yv)"
    using assms(2) by (auto simp: keyed_def)
  then show ?thesis
    using keyed_keys_distinct [OF assms(1)] by simp
qed

lemma create_forecast_plot_keyed:
  assumes "distinct (map fst yv)"
  shows "create_forecast_plot lib (keyed yv) code =
           map_sum id b64encode
             (savefig_png lib (forecast_figure lib code (filter (\<lambda>p. in_window (fst p)) yv)))"
proof -
  let ?w = "filter (\<lambda>p. in_window (fst p)) yv"
  have c1: "collect int_py (map fst (keyed yv)) = Inr (map fst yv)"
    by (simp add: keyed_def collect_map collect_total int_py_str)
  have fy: "filter (\<lambda>y. 2025 \<le> y \<and> y \<le> 2029) (map fst yv) = map fst ?w"
    by (simp add: filter_map comp_def in_window_def)
  have "collect (\<lambda>y. map_sum id (Pair y) (dict_get (keyed yv) (str y))) (map fst ?w) =
          collect (\<lambda>p. Inr (id p)) ?w"
    unfolding collect_map
  proof (rule collect_cong)
    fix p assume "p \<in> set ?w"
    then have "p \<in> set yv" by simp
    then show "map_sum id (Pair (fst p)) (dict_get (keyed yv) (str (fst p))) = Inr (id p)"
      by (simp add: dict_get_def map_of_keyed [OF assms])
  qed
  then have c2: "collect (\<lambda>y. map_sum id (Pair y) (dict_get (keyed yv) (str y))) (map fst ?w) = Inr ?w"
    by (simp add: collect_total)
  have "distinct (map fst ?w)"
    using assms by (simp add: distinct_map_filter)
  then have d: "dict_of ?w = ?w"
    by (rule dict_of_distinct)
  show ?thesis
    by (simp add: create_forecast_plot_def forecast_figure_def c1 fy c2 d Let_def)
qed

lemma length_b64_alphabet: "length b64_alphabet = 64"
  by (simp add: b64_alphabet_def)

lemma is_b64_char_b64_char: "n < 64 \<Longrightarrow> is_b64_char (b64_char n)"
  unfolding is_b64_char_def b64_char_def
  by (rule nth_mem) (simp add: length_b64_alphabet)

lemma is_b64_char_not_pad: "is_b64_char c \<Longrightarrow> c \<noteq> CHR ''=''"
  unfolding is_b64_char_def b64_alphabet_def by auto

lemma valid_base64_group:
  assumes "is_b64_char a" "is_b64_char b" "is_b64_char c" "is_b64_char d" "valid_base64 s"
  shows "valid_base64 (a # b # c # d # s)"
  using assms is_b64_char_not_pad [of c] by (cases s) simp_all

lemma unat_byte: "unat (a :: 8 word) < 256"
  using unsigned_less [of a, where ?'a = nat] by simp

lemma sextet_sum: "a < 4 \<Longrightarrow> b < 16 \<Longrightarrow> a * 16 + b < (64::nat)"
  by arith

lemma sextet_sum': "a < 16 \<Longrightarrow> b < 4 \<Longrightarrow> a * 4 + b < (64::nat)"
  by arith

lemma sextet_bounds:
  fixes x y :: nat
  assumes "x < 256" "y < 256"
  shows "x div 4 < 64" "x mod 4 * 16 < 64" "x mod 4 * 16 + y div 16 < 64"
    "x mod 16 * 4 < 64" "x mod 16 * 4 + y div 64 < 64" "x mod 64 < 64"
proof -
  have m4: "x mod 4 < 4" and m16: "x mod 16 < 16"
    by simp_all
  have d16: "y div 16 < 16" and d64: "y div 64 < 4"
    using assms(2) by (simp_all add: div_less_iff_less_mult)
  show "x div 4 < 64"
    using assms(1) by (simp add: div_less_iff_less_mult)
  show "x mod 4 * 16 + y div 16 < 64"
    using m4 d16 by (rule sextet_sum)
  show "x mod 4 * 16 < 64"
    using sextet_sum [OF m4, of 0] by simp
  show "x mod 16 * 4 + y div 64 < 64"
    using m16 d64 by (rule sextet_sum')
  show "x mod 16 * 4 < 64"
    using sextet_sum' [OF m16, of 0] by simp
  show "x mod 64 < 64"
    by simp
qed

lemma valid_base64_b64encode: "valid_base64 (b64encode bs)"
proof (induction bs rule: b64encode.induct)
  case 1
  show ?case by simp
next
  case (2 a)
  have "is_b64_char (b64_char (unat a div 4))" "is_b64_char (b64_char (unat a mod 4 * 16))"
    using sextet_bounds [OF unat_byte [of a] unat_byte [of a]] by (simp_all add: is_b64_char_b64_char)
  then show ?case by simp
next
  case (3 a b)
  have c: "is_b64_char (b64_char (unat a div 4))"
    "is_b64_char (b64_char (unat a mod 4 * 16 + unat b div 16))"
    "is_b64_char (b64_char (unat b mod 16 * 4))"
    using sextet_bounds [OF unat_byte [of a] unat_byte [of b]] sextet_bounds [OF unat_byte [of b] unat_byte [of b]]
    by (simp_all add: is_b64_char_b64_char)
  show ?case
    using c is_b64_char_not_pad [OF c(3)] by simp
next
  case (4 a b c bs)
  have s: "is_b64_char (b64_char (unat a div 4))"
    "is_b64_char (b64_char (unat a mod 4 * 16 + unat b div 16))"
    "is_b64_char (b64_char (unat b mod 16 * 4 + unat c div 64))"
    "is_b64_char (b64_char (unat c mod 64))"
    using sextet_bounds [OF unat_byte [of a] unat_byte [of b]] sextet_bounds [OF unat_byte [of b] unat_byte [of c]]
      sextet_bounds [OF unat_byte [of c] unat_byte [of c]]
    by (simp_all add: is_b64_char_b64_char)
  show ?case
    using 4 s by (simp add: valid_base64_group)
qed

lemma get_yearly_after_prepare:
  assumes "data_ref < length h"
  shows "fst (get_yearly_demand (snd (prepare_data h code)) code') = fst (get_yearly_demand h code')"
proof -
  have a: "data_ref < length (snd (prepare_data h code))"
    and b: "snd (prepare_data h code) ! data_ref = h ! data_ref"
    using prepare_data_heap [OF assms] by blast+
  have "product_rows (snd (prepare_data h code)) code' = product_rows h code'"
    by (simp add: product_rows_def b)
  then show ?thesis
    by (simp add: get_yearly_demand_fst [OF a] get_yearly_demand_fst [OF assms])
qed

lemma forecast_points_distinct: "distinct (map fst (forecast_points S fv))"
proof -
  have "distinct (map (\<lambda>i. fst (last S) + int i + 1) [0..<length fv])"
    by (simp add: distinct_map inj_on_def)
  then show ?thesis
    by (simp add: forecast_points_def)
qed

lemma displayed_forecast_distinct: "distinct (map fst (displayed_forecast S fv))"
  using forecast_points_distinct [of S fv] by (simp add: displayed_forecast_def distinct_map_filter)

lemma displayed_forecast_idem:
  "filter (\<lambda>p. in_window (fst p)) (displayed_forecast S fv) = displayed_forecast S fv"
  by (simp add: displayed_forecast_def)

lemma success_path:
  "forecast_window (forecast_by_year S fv) = Inr (keyed (displayed_forecast S fv))"
  "create_forecast_plot lib (keyed (displayed_forecast S fv)) code =
     map_sum id b64encode (savefig_png lib (forecast_figure lib code (displayed_forecast S fv)))"
proof -
  show "forecast_window (forecast_by_year S fv) = Inr (keyed (displayed_forecast S fv))"
    using forecast_window_keyed [OF forecast_points_distinct, of S fv]
    by (simp add: forecast_by_year_keyed forecast_points_def displayed_forecast_def)
  show "create_forecast_plot lib (keyed (displayed_forecast S fv)) code =
     map_sum id b64encode (savefig_png lib (forecast_figure lib code (displayed_forecast S fv)))"
    unfolding create_forecast_plot_keyed [OF displayed_forecast_distinct] displayed_forecast_idem ..
qed

lemma placeholder_too_wide:
  "min_tight_width_px
     \<lparr>figsize = (12, 7), artists = [Text (1 / 2) (1 / 2) msg], xlabel = xl, ylabel = yl,
      title = t, xlim = (2014, 2025)\<rparr> = 1882785 / 11"
  "min_tight_width_px
     \<lparr>figsize = (12, 7), artists = [Text (1 / 2) (1 / 2) msg], xlabel = xl, ylabel = yl,
      title = t, xlim = (2024, 2030)\<rparr> = 629145 / 2"
  by (simp_all add: min_tight_width_px_def text_anchors_px_def data_x_px_def axes_span_px_def
      dpi_def map_filter_simps)

lemma annotations_no_anchor:
  "List.map_filter (\<lambda>a. case a of Text x y s \<Rightarrow> Some (g x) | _ \<Rightarrow> None)
     (map (\<lambda>(y, demand). Annotate (f demand) y demand) w) = []"
  by (induction w) (auto simp: map_filter_simps)

lemma create_historical_plot_nonempty:
  "S \<noteq> [] \<Longrightarrow>
     create_historical_plot lib S code =
       map_sum id b64encode
         (rasterise_png lib
            \<lparr>figsize = (12, 7),
             artists = [Plot ''Historical Demand'' (map fst S) (Historical (map snd S))],
             xlabel = ''Year'', ylabel = ''Product Demand'',
             title = ''Historical Yearly Demand for '' @ code @ '' '', xlim = (2014, 2025)\<rparr>)"
  by (simp add: create_historical_plot_def savefig_png_def min_tight_width_px_def
      text_anchors_px_def axes_span_px_def dpi_def map_filter_simps)

lemma savefig_forecast_nonempty:
  "w \<noteq> [] \<Longrightarrow>
     savefig_png lib (forecast_figure lib code w) = rasterise_png lib (forecast_figure lib code w)"
  by (simp add: savefig_png_def min_tight_width_px_def text_anchors_px_def axes_span_px_def
      dpi_def map_filter_simps forecast_figure_def annotations_no_anchor)

lemma example_lib_image:
  "map_sum id b64encode (rasterise_png example_lib fig) = Inr ''iVA=''"
proof -
  have "b64encode [137, 80] = ''iVA=''"
    by code_simp
  then show ?thesis
    by (simp add: example_lib_def del: b64encode.simps)
qed

lemma create_historical_plot_empty: "create_historical_plot lib [] code = Inl ValueError"
  by (simp add: create_historical_plot_def savefig_png_def placeholder_too_wide)

lemma create_forecast_plot_empty:
  "create_forecast_plot lib (keyed []) code = Inl ValueError"
  using create_forecast_plot_keyed [of "[]" lib code]
  by (simp add: forecast_figure_def savefig_png_def placeholder_too_wide)

lemma index_post_fst:
  assumes "data_ref < length h"
  shows "fst (index_post lib ps h code) =
           (if fst (prepare_data h code) = [] \<or> fst (get_yearly_demand h code) = None
               \<or> fst (get_yearly_demand h code) = Some []
            then Inr (error_vars ps code ''No data found for this product or no data between 2015-2024.'')
            else case train_arima lib (fst (prepare_data h code)) of
                   None \<Rightarrow> Inr (error_vars ps code ''Failed to train ARIMA model.'')
                 | Some model_fit \<Rightarrow>
                     (case predict_demand lib model_fit 5 of
                        None \<Rightarrow> Inr (error_vars ps code ''Failed to generate forecast.'')
                      | Some fv \<Rightarrow>
                          (case create_historical_plot lib (fst (prepare_data h code)) code of
                             Inl e \<Rightarrow> Inl e
                           | Inr hist_url \<Rightarrow>
                               (case create_forecast_plot lib
                                       (keyed (displayed_forecast (fst (prepare_data h code)) fv))
                                       code of
                                  Inl e \<Rightarrow> Inl e
                                | Inr fc_url \<Rightarrow>
                                    Inr (success_vars ps code (fst (prepare_data h code)) fv
                                           hist_url fc_url)))))"
proof -
  have e: "fst (prepare_data h code) = (case fst (get_yearly_demand h code) of None \<Rightarrow> [] | Some s \<Rightarrow> s)"
    by (rule prepare_eq_yearly [OF assms])
  show ?thesis
    using e
    by (simp add: index_post_def split_def Let_def get_yearly_after_prepare [OF assms]
        success_path(1) error_vars_def success_vars_def initial_vars_def
        split: option.splits sum.splits)
qed

lemma index_post_snd:
  "snd (index_post lib ps h code) = snd (get_yearly_demand (snd (prepare_data h code)) code)"
  by (simp add: index_post_def split_def Let_def split: option.splits sum.splits)

lemma render_error_vars:
  "msg \<noteq> [] \<Longrightarrow> Page (render_template_string (error_vars ps code msg)) = error_page ps msg"
  by (simp add: render_template_string_def error_vars_def error_page_def truthy_def)

lemma index_POST_fst:
  "form ''product_code'' = Some code \<Longrightarrow>
     fst (index lib ps h (POST form)) =
       (case fst (index_post lib ps h code) of
          Inl e \<Rightarrow> InternalServerError e
        | Inr c \<Rightarrow> Page (render_template_string c))"
  by (simp add: index_def split: prod.splits sum.splits)

lemma index_heap:
  assumes "data_ref < length h"
  shows "snd (index lib ps h req) ! data_ref = h ! data_ref \<and>
         data_ref < length (snd (index lib ps h req))"
proof (cases req)
  case GET
  then show ?thesis using assms by (simp add: index_def)
next
  case (POST form)
  show ?thesis
  proof (cases "form ''product_code''")
    case None
    then show ?thesis using assms POST by (simp add: index_def)
  next
    case (Some code)
    have "snd (index lib ps h req) = snd (index_post lib ps h code)"
      using POST Some by (simp add: index_def split: prod.splits sum.splits)
    then have e: "snd (index lib ps h req) = snd (get_yearly_demand (snd (prepare_data h code)) code)"
      by (simp add: index_post_snd)
    have a: "data_ref < length (snd (prepare_data h code))"
      and b: "snd (prepare_data h code) ! data_ref = h ! data_ref"
      using prepare_data_heap [OF assms] by blast+
    show ?thesis
      using get_yearly_demand_heap [OF a, of code] b by (simp add: e)
  qed
qed

lemma serve_heap:
  "data_ref < length h \<Longrightarrow>
     snd (serve lib ps h reqs) ! data_ref = h ! data_ref \<and>
     data_ref < length (snd (serve lib ps h reqs))"
proof (induction reqs arbitrary: h)
  case Nil
  then show ?case by simp
next
  case (Cons req reqs)
  have i: "snd (index lib ps h req) ! data_ref = h ! data_ref"
    "data_ref < length (snd (index lib ps h req))"
    using index_heap [OF Cons.prems] by blast+
  show ?case
    using Cons.IH [OF i(2)] i(1) by (simp add: split_def Let_def)
qed


lemma load_rows_numeric:
  "map (\<lambda>r. (Product_Code r, Date r, Numeric (Order_Demand r))) (load_rows csv) =
     map (\<lambda>r. (Product_Code r, Date r, Order_Demand r)) (filter (\<lambda>r. Order_Demand r \<noteq> NonNumeric) csv)"
proof (induction csv)
  case Nil
  show ?case by (simp add: load_rows_def map_filter_simps)
next
  case (Cons r csv)
  then show ?case
    by (cases "Order_Demand r") (simp_all add: load_rows_def map_filter_simps to_numeric_coerce_def)
qed

lemma no_rows_empty:
  assumes "data_ref < length h" and "product_rows h code = []"
  shows "fst (prepare_data h code) = []" and "fst (get_yearly_demand h code) = None"
  using assms by (simp_all add: prepare_data_fst get_yearly_demand_fst)

lemma try_result_eq:
  assumes "data_ref < length h"
  shows "try_result h code =
           map_sum id (\<lambda>s. year_le 2024 (year_ge 2015 (fillna_ffill s)))
             (resample_Y_sum (converted (product_rows h code)))"
proof -
  let ?h1 = "snd (select_copy h data_ref (\<lambda>r. Product_Code r = code))"
  have new: "rows (?h1 ! length h) = product_rows h code"
    using assms by (simp add: select_copy_def product_rows_def nth_append)
  have len: "length h < length ?h1"
    by (simp add: select_copy_def)
  show ?thesis
    using prepare_data_try_fst [OF len] new by (simp add: try_result_def select_copy_fst)
qed

lemma raise_gives_empty:
  assumes "data_ref < length h" and "isl (try_result h code)"
  shows "fst (prepare_data h code) = []"
  using assms(2)
  by (auto simp: prepare_data_fst [OF assms(1)] try_result_eq [OF assms(1)] isl_def
      split: sum.splits)

lemma empty_series_page:
  assumes "data_ref < length h" and "form ''product_code'' = Some code"
    and "fst (prepare_data h code) = []"
  shows "fst (index lib ps h (POST form)) =
           error_page ps ''No data found for this product or no data between 2015-2024.''"
  using assms(3) index_POST_fst [of form code lib ps h] assms(2)
  by (simp add: index_post_fst [OF assms(1)] render_error_vars)

lemma handler_pages:
  assumes "data_ref < length h" and "form ''product_code'' = Some code"
  shows "fst (index lib ps h (POST form)) =
     (if fst (prepare_data h code) = [] \<or> fst (get_yearly_demand h code) = None
         \<or> fst (get_yearly_demand h code) = Some []
      then error_page ps ''No data found for this product or no data between 2015-2024.''
      else case train_arima lib (fst (prepare_data h code)) of
             None \<Rightarrow> error_page ps ''Failed to train ARIMA model.''
           | Some model_fit \<Rightarrow>
               (case predict_demand lib model_fit 5 of
                  None \<Rightarrow> error_page ps ''Failed to generate forecast.''
                | Some fv \<Rightarrow>
                    (case create_historical_plot lib (fst (prepare_data h code)) code of
                       Inl e \<Rightarrow> InternalServerError e
                     | Inr hist_url \<Rightarrow>
                         (case create_forecast_plot lib
                                 (keyed (displayed_forecast (fst (prepare_data h code)) fv)) code of
                            Inl e \<Rightarrow> InternalServerError e
                          | Inr fc_url \<Rightarrow>
                              Page (render_template_string
                                      (success_vars ps code (fst (prepare_data h code)) fv
                                         hist_url fc_url))))))"
  using index_POST_fst [of form code lib ps h] assms(2)
  by (simp add: index_post_fst [OF assms(1)] render_error_vars split: option.splits sum.splits)

lemma get_yearly_demand_series:
  assumes "data_ref < length h"
  shows "fst (get_yearly_demand h code) =
           (if record_years h code = [] then None
            else Some (map (\<lambda>y. (y, Some (bin_total (record_points h code) y)))
                   (filter (\<lambda>y. 2015 \<le> y \<and> y \<le> 2024)
                      [Min (set (record_years h code)) .. Max (set (record_years h code))])))"
proof (cases "product_rows h code = []")
  case True
  then show ?thesis
    using dated_points_Nil [OF True] by (simp add: get_yearly_demand_fst [OF assms])
next
  case False
  show ?thesis
  proof (cases "record_years h code")
    case Nil
    then show ?thesis
      using False
      by (simp add: get_yearly_demand_fst [OF assms] resample_converted record_years_def
          record_points_def)
  next
    case (Cons y ys)
    then show ?thesis
      using False
      by (simp add: get_yearly_demand_fst [OF assms] resample_converted record_years_def
          record_points_def window_filter del: set_simps)
  qed
qed

lemma forecast_points_five:
  "forecast_points S [v1, v2, v3, v4, v5] =
     [(fst (last S) + 1, v1), (fst (last S) + 2, v2), (fst (last S) + 3, v3),
      (fst (last S) + 4, v4), (fst (last S) + 5, v5)]"
  by (simp add: forecast_points_def upt_rec)

section \<open>The claims\<close>

text \<open>
  C2. Every year that appears in the series returned by \<open>prepare_data\<close>, and every year
  that appears in the series returned by \<open>get_yearly_demand\<close>, lies in 2015 to 2024: a
  record dated outside that window contributes no point, however many such records
  there are.
\<close>

theorem year_window:
  "(p \<in> set (fst (prepare_data h code)) \<longrightarrow> 2015 \<le> fst p \<and> fst p \<le> 2024) \<and>
   (fst (get_yearly_demand h code) = Some s \<longrightarrow> p \<in> set s \<longrightarrow> 2015 \<le> fst p \<and> fst p \<le> 2024)"
proof (intro conjI impI)
  assume a: "p \<in> set (fst (prepare_data h code))"
  let ?sc = "select_copy h data_ref (\<lambda>r. Product_Code r = code)"
  from a obtain s' where "fst (prepare_data_try (snd ?sc) (fst ?sc)) = Inr s'" "p \<in> set s'"
    by (auto simp: prepare_data_def split_def Let_def split: if_splits sum.splits prod.splits)
  then show "2015 \<le> fst p" "fst p \<le> 2024"
    using prepare_data_try_window by blast+
next
  assume a: "fst (get_yearly_demand h code) = Some s" "p \<in> set s"
  let ?sc = "select_copy h data_ref (\<lambda>r. Product_Code r = code)"
  from a have "fst (get_yearly_demand_try (snd ?sc) (fst ?sc)) = Inr s"
    by (auto simp: get_yearly_demand_def split_def Let_def split: if_splits sum.splits prod.splits)
  then show "2015 \<le> fst p" "fst p \<le> 2024"
    using get_yearly_demand_try_window a(2) by blast+
qed

theorem year_window_witness:
  "(2017, Some 30) \<in> set (fst (prepare_data example_heap ''B2'')) \<and>
   fst (get_yearly_demand example_heap ''B2'') = Some [(2015, Some 10), (2016, Some 0), (2017, Some 30)] \<and>
   2013 \<in> set (record_years example_heap ''B2'') \<and>
   2015 \<le> fst ((2017 :: int), Some (30 :: int64)) \<and> fst ((2017 :: int), Some (30 :: int64)) \<le> 2024"
proof -
  have a: "fst (prepare_data example_heap ''B2'') = [(2015, Some 10), (2016, Some 0), (2017, Some 30)]"
    by code_simp
  have b: "fst (get_yearly_demand example_heap ''B2'') = Some [(2015, Some 10), (2016, Some 0), (2017, Some 30)]"
    by code_simp
  have c: "record_years example_heap ''B2'' = [2013, 2017, 2015]"
    by code_simp
  show ?thesis
    using year_window [of "(2017, Some 30)" example_heap "''B2''"
        "[(2015, Some 10), (2016, Some 0), (2017, Some 30)]"] a b c
    by simp
qed

text \<open>
  C1. A POST of a product code that no row of the dataset carries ends in the no-data
  state: \<open>prepare_data\<close> returns the empty series, \<open>get_yearly_demand\<close> returns \<open>None\<close>,
  and the page shows the "No data found" message and neither forecast nor charts.
\<close>

theorem unknown_product_no_data:
  assumes "data_ref < length h"
    and "product_rows h code = []"
    and "form ''product_code'' = Some code"
  shows "fst (prepare_data h code) = [] \<and>
         fst (get_yearly_demand (snd (prepare_data h code)) code) = None \<and>
         fst (index lib ps h (POST form)) =
           error_page ps ''No data found for this product or no data between 2015-2024.''"
proof -
  have a: "fst (prepare_data h code) = []" and b: "fst (get_yearly_demand h code) = None"
    using no_rows_empty [OF assms(1,2)] by blast+
  show ?thesis
    using a b empty_series_page [where h = h and form = form and code = code, OF assms(1) assms(3) a]
    by (simp add: get_yearly_after_prepare [OF assms(1)])
qed

theorem unknown_product_no_data_witness:
  "data_ref < length example_heap \<and> product_rows example_heap ''ZZ'' = [] \<and>
   fst (index example_lib [''A1'', ''B2''] example_heap (POST [''product_code'' \<mapsto> ''ZZ''])) =
     Page [SelectForm [''A1'', ''B2''],
           ErrorMessage ''No data found for this product or no data between 2015-2024.'',
           PrintButton]"
proof -
  have a: "data_ref < length example_heap"
    by (simp add: data_ref_def example_heap_def)
  have b: "product_rows example_heap ''ZZ'' = []"
    by code_simp
  have c: "[''product_code'' \<mapsto> ''ZZ''] ''product_code'' = Some ''ZZ''"
    by simp
  show ?thesis
    using unknown_product_no_data
      [where h = example_heap and code = "''ZZ''" and form = "[''product_code'' \<mapsto> ''ZZ'']"
        and lib = example_lib and ps = "[''A1'', ''B2'']", OF a b c] a b
    by (simp add: error_page_def)
qed

text \<open>
  C3. On a request that passes the three checks, with last observed year \<open>L\<close> and the five
  predicted values \<open>v1\<close> to \<open>v5\<close>, the mapping built at line 338 has exactly the keys
  \<open>str (L+1)\<close> to \<open>str (L+5)\<close>, in this order, each with its value; the mapping of line 340
  is the part of it whose year lies in 2025 to 2029, and it is the forecast of every
  successful request; when \<open>L\<close> is before 2020 it has fewer than five entries.
\<close>

theorem forecast_years:
  assumes "data_ref < length h"
    and "fst (prepare_data h code) = S" and "S \<noteq> []"
    and "train_arima lib S = Some m"
    and "predict_demand lib m 5 = Some [v1, v2, v3, v4, v5]"
    and "L = fst (last S)"
  shows "forecast_by_year S [v1, v2, v3, v4, v5] =
           [(str (L + 1), v1), (str (L + 2), v2), (str (L + 3), v3), (str (L + 4), v4),
            (str (L + 5), v5)] \<and>
         forecast_window (forecast_by_year S [v1, v2, v3, v4, v5]) =
           Inr (keyed (filter (\<lambda>p. 2025 \<le> fst p \<and> fst p \<le> 2029)
                  [(L + 1, v1), (L + 2, v2), (L + 3, v3), (L + 4, v4), (L + 5, v5)])) \<and>
         (fst (index_post lib ps h code) = Inr c \<longrightarrow>
            forecast c =
              Some (keyed (filter (\<lambda>p. 2025 \<le> fst p \<and> fst p \<le> 2029)
                      [(L + 1, v1), (L + 2, v2), (L + 3, v3), (L + 4, v4), (L + 5, v5)]))) \<and>
         (L < 2020 \<longrightarrow>
            length (keyed (filter (\<lambda>p. 2025 \<le> fst p \<and> fst p \<le> 2029)
                     [(L + 1, v1), (L + 2, v2), (L + 3, v3), (L + 4, v4), (L + 5, v5)])) < 5)"
proof (intro conjI)
  have fp: "forecast_points S [v1, v2, v3, v4, v5] =
              [(L + 1, v1), (L + 2, v2), (L + 3, v3), (L + 4, v4), (L + 5, v5)]"
    by (simp add: forecast_points_five assms(6))
  have df: "displayed_forecast S [v1, v2, v3, v4, v5] =
              filter (\<lambda>p. 2025 \<le> fst p \<and> fst p \<le> 2029)
                [(L + 1, v1), (L + 2, v2), (L + 3, v3), (L + 4, v4), (L + 5, v5)]"
    by (simp only: displayed_forecast_def fp in_window_def)
  show "forecast_by_year S [v1, v2, v3, v4, v5] =
           [(str (L + 1), v1), (str (L + 2), v2), (str (L + 3), v3), (str (L + 4), v4),
            (str (L + 5), v5)]"
  proof -
    have "forecast_by_year S [v1, v2, v3, v4, v5] = keyed (forecast_points S [v1, v2, v3, v4, v5])"
      by (simp only: forecast_by_year_keyed forecast_points_def)
    also have "\<dots> = keyed [(L + 1, v1), (L + 2, v2), (L + 3, v3), (L + 4, v4), (L + 5, v5)]"
      by (simp only: fp)
    finally show ?thesis
      by (simp add: keyed_def)
  qed
  show "forecast_window (forecast_by_year S [v1, v2, v3, v4, v5]) =
           Inr (keyed (filter (\<lambda>p. 2025 \<le> fst p \<and> fst p \<le> 2029)
                  [(L + 1, v1), (L + 2, v2), (L + 3, v3), (L + 4, v4), (L + 5, v5)]))"
    by (simp only: success_path(1) df)
  obtain s where "fst (get_yearly_demand h code) = Some s" "s \<noteq> []"
    using prepare_eq_yearly [OF assms(1), of code] assms(2,3)
    by (cases "fst (get_yearly_demand h code)") auto
  moreover have S: "S = fst (prepare_data h code)"
    using assms(2) by simp
  ultimately have "fst (index_post lib ps h code) =
      (case create_historical_plot lib S code of
         Inl e \<Rightarrow> Inl e
       | Inr hist_url \<Rightarrow>
           (case create_forecast_plot lib (keyed (displayed_forecast S [v1, v2, v3, v4, v5])) code of
              Inl e \<Rightarrow> Inl e
            | Inr fc_url \<Rightarrow> Inr (success_vars ps code S [v1, v2, v3, v4, v5] hist_url fc_url)))"
    using assms(3-5) unfolding S by (simp add: index_post_fst [OF assms(1)])
  then have ip: "fst (index_post lib ps h code) = Inr c \<Longrightarrow>
      \<exists>hist_url fc_url. c = success_vars ps code S [v1, v2, v3, v4, v5] hist_url fc_url"
    by (auto split: sum.splits)
  show "fst (index_post lib ps h code) = Inr c \<longrightarrow>
            forecast c =
              Some (keyed (filter (\<lambda>p. 2025 \<le> fst p \<and> fst p \<le> 2029)
                      [(L + 1, v1), (L + 2, v2), (L + 3, v3), (L + 4, v4), (L + 5, v5)]))"
  proof
    assume "fst (index_post lib ps h code) = Inr c"
    then obtain hist_url fc_url
      where "c = success_vars ps code S [v1, v2, v3, v4, v5] hist_url fc_url"
      using ip by blast
    then have "forecast c = Some (keyed (displayed_forecast S [v1, v2, v3, v4, v5]))"
      by (simp add: success_vars_def)
    then show "forecast c =
              Some (keyed (filter (\<lambda>p. 2025 \<le> fst p \<and> fst p \<le> 2029)
                      [(L + 1, v1), (L + 2, v2), (L + 3, v3), (L + 4, v4), (L + 5, v5)]))"
      by (simp only: df)
  qed
  show "L < 2020 \<longrightarrow>
            length (keyed (filter (\<lambda>p. 2025 \<le> fst p \<and> fst p \<le> 2029)
                     [(L + 1, v1), (L + 2, v2), (L + 3, v3), (L + 4, v4), (L + 5, v5)])) < 5"
    by (simp add: keyed_def)
qed

theorem forecast_years_witness:
  "data_ref < length example_heap \<and>
   fst (prepare_data example_heap ''E5'') =
     [(2020, Some 1), (2021, Some 2), (2022, Some 3), (2023, Some 4), (2024, Some 5)] \<and>
   fst (index_post example_lib [''E5''] example_heap ''E5'') =
     Inr (success_vars [''E5''] ''E5''
            [(2020, Some 1), (2021, Some 2), (2022, Some 3), (2023, Some 4), (2024, Some 5)]
            [42, 42, 42, 42, 42 :: int] ''iVA='' ''iVA='') \<and>
   forecast (success_vars [''E5''] ''E5''
            [(2020, Some 1), (2021, Some 2), (2022, Some 3), (2023, Some 4), (2024, Some 5)]
            [42, 42, 42, 42, 42 :: int] ''iVA='' ''iVA='') =
     Some [(''2025'', 42), (''2026'', 42), (''2027'', 42), (''2028'', 42), (''2029'', 42)] \<and>
   fst (prepare_data example_heap ''B2'') = [(2015, Some 10), (2016, Some 0), (2017, Some 30)] \<and>
   (2017 :: int) < 2020 \<and>
   forecast_window (forecast_by_year [(2015, Some 10), (2016, Some 0), (2017, Some 30)]
       [42, 42, 42, 42, 42 :: int]) = Inr [] \<and>
   length (keyed (filter (\<lambda>p. 2025 \<le> fst p \<and> fst p \<le> 2029)
             [(2017 + 1, 42 :: int), (2017 + 2, 42), (2017 + 3, 42), (2017 + 4, 42), (2017 + 5, 42)])) < 5"
proof -
  let ?S = "[(2020, Some 1), (2021, Some 2), (2022, Some 3), (2023, Some 4), (2024, Some 5)] :: series"
  let ?T = "[(2015, Some 10), (2016, Some 0), (2017, Some 30)] :: series"
  let ?c = "success_vars [''E5''] ''E5'' ?S [42, 42, 42, 42, 42 :: int] ''iVA='' ''iVA=''"
  have a: "data_ref < length example_heap"
    by (simp add: data_ref_def example_heap_def)
  have b: "fst (prepare_data example_heap ''E5'') = ?S"
    by code_simp
  have c: "train_arima example_lib ?S = Some ?S"
    by (simp add: train_arima_def example_lib_def)
  have d: "predict_demand example_lib m 5 = Some [42, 42, 42, 42, 42]" for m
    by (simp add: predict_demand_def example_lib_def numeral_eq_Suc)
  have e: "(2024 :: int) = fst (last ?S)"
    by simp
  have s: "str 2025 = ''2025''" "str 2026 = ''2026''" "str 2027 = ''2027''" "str 2028 = ''2028''"
    "str 2029 = ''2029''"
    by code_simp+
  have g: "fst (get_yearly_demand example_heap ''E5'') = Some ?S"
    by code_simp
  have hp: "create_historical_plot example_lib ?S ''E5'' = Inr ''iVA=''"
    by (simp add: create_historical_plot_nonempty example_lib_image)
  have dp: "displayed_forecast ?S [42, 42, 42, 42, 42 :: int] =
              [(2025, 42), (2026, 42), (2027, 42), (2028, 42), (2029, 42)]"
    by (simp add: displayed_forecast_def forecast_points_five in_window_def)
  have fp: "create_forecast_plot example_lib (keyed (displayed_forecast ?S [42, 42, 42, 42, 42 :: int]))
              ''E5'' = Inr ''iVA=''"
    using success_path(2) [of example_lib ?S "[42, 42, 42, 42, 42]" "''E5''"]
    by (simp add: dp savefig_forecast_nonempty example_lib_image)
  have i: "fst (index_post example_lib [''E5''] example_heap ''E5'') = Inr ?c"
    by (simp add: index_post_fst [OF a] b g c d hp fp)
  note u = forecast_years [OF a b _ c d e, of "[''E5'']" ?c]
  have 1: "forecast ?c =
     Some [(''2025'', 42), (''2026'', 42), (''2027'', 42), (''2028'', 42), (''2029'', 42)]"
    using u [THEN conjunct2, THEN conjunct2, THEN conjunct1] i s by (simp add: keyed_def)
  have b': "fst (prepare_data example_heap ''B2'') = ?T"
    by code_simp
  have c': "train_arima example_lib ?T = Some ?T"
    by (simp add: train_arima_def example_lib_def)
  have e': "(2017 :: int) = fst (last ?T)"
    by simp
  note t = forecast_years [OF a b' _ c' d e', of "[''B2'']"]
  have 2: "forecast_window (forecast_by_year ?T [42, 42, 42, 42, 42 :: int]) = Inr []"
    using t [THEN conjunct2, THEN conjunct1] by (simp add: keyed_def)
  have 3: "length (keyed (filter (\<lambda>p. 2025 \<le> fst p \<and> fst p \<le> 2029)
             [(2017 + 1, 42 :: int), (2017 + 2, 42), (2017 + 3, 42), (2017 + 4, 42), (2017 + 5, 42)])) < 5"
    using t [THEN conjunct2, THEN conjunct2, THEN conjunct2] by simp
  show ?thesis
    using a b i 1 b' 2 3 by simp
qed

text \<open>
  C4. \<open>prepare_data\<close> never raises: for a product code that no row carries, and whenever
  the body of its \<open>try\<close> raises, it returns the empty series; and the handler answers an
  empty series with the no-data page.
\<close>

theorem prepare_data_never_raises:
  assumes "data_ref < length h"
    and "form ''product_code'' = Some code"
    and "product_rows h code = [] \<or> isl (try_result h code)"
  shows "fst (prepare_data h code) = [] \<and>
         fst (index lib ps h (POST form)) =
           error_page ps ''No data found for this product or no data between 2015-2024.''"
proof -
  have a: "fst (prepare_data h code) = []"
    using assms(3) no_rows_empty(1) [OF assms(1)] raise_gives_empty [OF assms(1)] by blast
  show ?thesis
    using a empty_series_page [where h = h and form = form and code = code, OF assms(1,2) a]
    by simp
qed

theorem prepare_data_never_raises_witness:
  "data_ref < length example_heap \<and> try_result example_heap ''C3'' = Inl ValueError \<and>
   fst (prepare_data example_heap ''C3'') = [] \<and>
   fst (index example_lib [''C3''] example_heap (POST [''product_code'' \<mapsto> ''C3''])) =
     Page [SelectForm [''C3''],
           ErrorMessage ''No data found for this product or no data between 2015-2024.'',
           PrintButton]"
proof -
  have a: "data_ref < length example_heap"
    by (simp add: data_ref_def example_heap_def)
  have b: "try_result example_heap ''C3'' = Inl ValueError"
    by code_simp
  have c: "[''product_code'' \<mapsto> ''C3''] ''product_code'' = Some ''C3''"
    by simp
  have d: "product_rows example_heap ''C3'' = [] \<or> isl (try_result example_heap ''C3'')"
    by (simp add: b)
  show ?thesis
    using prepare_data_never_raises
      [where h = example_heap and code = "''C3''" and form = "[''product_code'' \<mapsto> ''C3'']"
        and lib = example_lib and ps = "[''C3'']", OF a c d] a b
    by (simp add: error_page_def)
qed



text \<open>
  C6, as the code has it. The claim that a year without records is absent from the series
  fails: product B2 of the example has records in 2013, 2015 and 2017 only, and its
  prepared series has the point (2016, 0).
\<close>

theorem gap_year_counterexample:
  "record_years example_heap ''B2'' = [2013, 2017, 2015] \<and>
   fst (prepare_data example_heap ''B2'') = [(2015, Some 10), (2016, Some 0), (2017, Some 30)]"
proof -
  have a: "record_years example_heap ''B2'' = [2013, 2017, 2015]"
    by code_simp
  have b: "fst (prepare_data example_heap ''B2'') = [(2015, Some 10), (2016, Some 0), (2017, Some 30)]"
    by code_simp
  show ?thesis
    using a b by (rule conjI)
qed

text \<open>
  C6, amended. For a product with at least one record of readable date, the prepared
  series and the historical series have one point for every calendar year from the
  product's earliest record year to its latest that lies in 2015 to 2024, with the sum of
  the quantities of that year's records (0 for a year without records); years outside
  that span are absent; a product without such a record has the empty series
  (\<open>None\<close> for \<open>get_yearly_demand\<close>). The forward fill changes no series that the yearly sum
  returns.
\<close>

theorem yearly_series_span:
  assumes "data_ref < length h"
  shows "fst (prepare_data h code) =
           (if record_years h code = [] then []
            else map (\<lambda>y. (y, Some (bin_total (record_points h code) y)))
                   (filter (\<lambda>y. 2015 \<le> y \<and> y \<le> 2024)
                      [Min (set (record_years h code)) .. Max (set (record_years h code))])) \<and>
         fst (get_yearly_demand h code) =
           (if record_years h code = [] then None
            else Some (map (\<lambda>y. (y, Some (bin_total (record_points h code) y)))
                   (filter (\<lambda>y. 2015 \<le> y \<and> y \<le> 2024)
                      [Min (set (record_years h code)) .. Max (set (record_years h code))]))) \<and>
         (resample_Y_sum f = Inr s \<longrightarrow> fillna_ffill s = s)"
  using prepare_data_series [OF assms, of code] get_yearly_demand_series [OF assms, of code]
    resample_ffill [of f s]
  by blast

theorem yearly_series_span_witness:
  "data_ref < length example_heap \<and>
   record_years example_heap ''A1'' = [2015, 2016, 2015] \<and>
   fst (prepare_data example_heap ''A1'') =
     map (\<lambda>y. (y, Some (bin_total (record_points example_heap ''A1'') y)))
       (filter (\<lambda>y. 2015 \<le> y \<and> y \<le> 2024) [2015 .. 2016]) \<and>
   resample_Y_sum (converted (product_rows example_heap ''A1'')) =
     Inr [(2015, Some 100), (2016, Some 120)] \<and>
   fillna_ffill [(2015, Some 100), (2016, Some 120)] = [(2015, Some 100), (2016, Some 120)]"
proof -
  have a: "data_ref < length example_heap"
    by (simp add: data_ref_def example_heap_def)
  have b: "record_years example_heap ''A1'' = [2015, 2016, 2015]"
    by code_simp
  have c: "resample_Y_sum (converted (product_rows example_heap ''A1'')) =
     Inr [(2015, Some 100), (2016, Some 120)]"
    by code_simp
  note t = yearly_series_span [OF a, of "''A1''" "converted (product_rows example_heap ''A1'')"
      "[(2015, Some 100), (2016, Some 120)]"]
  have 1: "fst (prepare_data example_heap ''A1'') =
     map (\<lambda>y. (y, Some (bin_total (record_points example_heap ''A1'') y)))
       (filter (\<lambda>y. 2015 \<le> y \<and> y \<le> 2024) [2015 .. 2016])"
    using t [THEN conjunct1] b by simp
  have 2: "fillna_ffill [(2015, Some 100), (2016, Some 120)] = [(2015, Some 100), (2016, Some 120)]"
    using t [THEN conjunct2, THEN conjunct2] c by blast
  show ?thesis
    using a b c 1 2 by blast
qed

text \<open>
  C8, as the code has it. For an empty historical series and for an empty forecast mapping
  the chart functions take the branch that draws only the "no data" message, but they
  place it at the data point (0.5, 0.5) and then set the x limits to 2014-2025 and
  2024-2030: the text lies far to the left of the axes, the tight image is wider than the
  renderer allows, and \<open>savefig\<close> raises ValueError, which neither function catches. No
  placeholder image is returned, whatever the rasteriser.
\<close>

theorem placeholder_raises:
  "create_historical_plot lib [] code = Inl ValueError \<and>
   create_forecast_plot lib [] code = Inl ValueError"
  using create_historical_plot_empty [of lib code] create_forecast_plot_empty [of lib code]
  by (simp add: keyed_def)

theorem placeholder_raises_witness:
  "create_historical_plot example_lib [] ''A1'' = Inl ValueError \<and>
   create_forecast_plot example_lib [] ''A1'' = Inl ValueError \<and>
   fst (index example_lib [''B2''] example_heap (POST [''product_code'' \<mapsto> ''B2''])) =
     InternalServerError ValueError"
proof -
  let ?T = "[(2015, Some 10), (2016, Some 0), (2017, Some 30)] :: series"
  have a: "data_ref < length example_heap"
    by (simp add: data_ref_def example_heap_def)
  have b: "fst (prepare_data example_heap ''B2'') = ?T"
    by code_simp
  have g: "fst (get_yearly_demand example_heap ''B2'') = Some ?T"
    by code_simp
  have c: "train_arima example_lib ?T = Some ?T"
    by (simp add: train_arima_def example_lib_def)
  have d: "predict_demand example_lib m 5 = Some [42, 42, 42, 42, 42]" for m
    by (simp add: predict_demand_def example_lib_def numeral_eq_Suc)
  have hp: "create_historical_plot example_lib ?T ''B2'' = Inr ''iVA=''"
    by (simp add: create_historical_plot_nonempty example_lib_image)
  have dp: "displayed_forecast ?T [42, 42, 42, 42, 42 :: int] = []"
    by (simp add: displayed_forecast_def forecast_points_five in_window_def)
  have fp: "create_forecast_plot example_lib (keyed (displayed_forecast ?T [42, 42, 42, 42, 42 :: int]))
              ''B2'' = Inl ValueError"
    unfolding dp using placeholder_raises [of example_lib "''B2''"] by (simp add: keyed_def)
  have f: "[''product_code'' \<mapsto> ''B2''] ''product_code'' = Some ''B2''"
    by simp
  have "fst (index example_lib [''B2''] example_heap (POST [''product_code'' \<mapsto> ''B2''])) =
     InternalServerError ValueError"
    using handler_pages [where h = example_heap and form = "[''product_code'' \<mapsto> ''B2'']"
        and code = "''B2''" and lib = example_lib and ps = "[''B2'']", OF a f]
    by (simp add: b g c d hp fp)
  then show ?thesis
    using placeholder_raises [of example_lib "''A1''"] by simp
qed

text \<open>
  C9, as the code has it. The claim that every retained quantity is non-negative fails:
  the example file has a row of product D4 with the quantity -5, and the loaded dataset
  keeps it with that value.
\<close>

theorem negative_quantity_counterexample:
  "startup (Inr example_csv) = Some example_heap \<and>
   Product_Code (rows (example_heap ! data_ref) ! 7) = ''D4'' \<and>
   sint (Order_Demand (rows (example_heap ! data_ref) ! 7)) = - 5"
proof -
  have a: "startup (Inr example_csv) = Some example_heap"
    by (simp add: startup_def example_heap_def)
  have b: "Product_Code (rows (example_heap ! data_ref) ! 7) = ''D4''"
    by code_simp
  have c: "sint (Order_Demand (rows (example_heap ! data_ref) ! 7)) = - 5"
    by code_simp
  show ?thesis
    using a b c by simp
qed

text \<open>
  C9, amended. After the startup load the dataset holds exactly the rows of the file whose
  quantity is a number, in file order, each with the 64-bit integer value of its cell,
  which may be negative (rows with a quantity that is no number are dropped); and after
  any sequence of requests the dataset object is the one the startup made.
\<close>

theorem dataset_loaded_and_unchanged:
  assumes "startup file = Some h"
  shows "(\<exists>csv. file = Inr csv \<and>
            map (\<lambda>r. (Product_Code r, Date r, Numeric (Order_Demand r))) (rows (h ! data_ref)) =
              map (\<lambda>r. (Product_Code r, Date r, Order_Demand r))
                (filter (\<lambda>r. Order_Demand r \<noteq> NonNumeric) csv)) \<and>
         snd (serve lib ps h reqs) ! data_ref = h ! data_ref"
proof -
  obtain csv where f: "file = Inr csv" and h: "h = [\<lparr>rows = load_rows csv, Date_is_index = False\<rparr>]"
    using assms by (auto simp: startup_def split: sum.splits)
  have "data_ref < length h"
    by (simp add: h data_ref_def)
  then have "snd (serve lib ps h reqs) ! data_ref = h ! data_ref"
    using serve_heap by blast
  moreover have "map (\<lambda>r. (Product_Code r, Date r, Numeric (Order_Demand r))) (rows (h ! data_ref)) =
              map (\<lambda>r. (Product_Code r, Date r, Order_Demand r))
                (filter (\<lambda>r. Order_Demand r \<noteq> NonNumeric) csv)"
    by (simp add: h data_ref_def load_rows_numeric)
  ultimately show ?thesis
    using f by blast
qed

theorem dataset_loaded_and_unchanged_witness:
  "startup (Inr example_csv) = Some example_heap \<and>
   snd (serve example_lib [''A1'']  example_heap
          [POST [''product_code'' \<mapsto> ''A1''], GET, POST [''product_code'' \<mapsto> ''E5'']])
     ! data_ref = example_heap ! data_ref"
proof -
  have a: "startup (Inr example_csv) = Some example_heap"
    by (simp add: startup_def example_heap_def)
  show ?thesis
    using dataset_loaded_and_unchanged [OF a] a by blast
qed

text \<open>
  C10. Whenever \<open>get_yearly_demand\<close> returns a non-empty series, \<open>prepare_data\<close> returns
  the same points in the same order; for every product code the result of \<open>prepare_data\<close>
  is the series of \<open>get_yearly_demand\<close>, with the empty series in place of \<open>None\<close>; and the
  forward fill of \<open>prepare_data\<close> changes no series that the yearly sum returns.
\<close>

theorem prepare_matches_yearly:
  assumes "data_ref < length h"
    and "fst (get_yearly_demand h code) = Some s" and "s \<noteq> []"
  shows "fst (prepare_data h code) = s \<and>
         fst (prepare_data h code') =
           (case fst (get_yearly_demand h code') of None \<Rightarrow> [] | Some t \<Rightarrow> t) \<and>
         (resample_Y_sum f = Inr r \<longrightarrow> fillna_ffill r = r)"
  using prepare_eq_yearly [OF assms(1), of code] prepare_eq_yearly [OF assms(1), of code']
    assms(2) resample_ffill [of f r]
  by simp

theorem prepare_matches_yearly_witness:
  "data_ref < length example_heap \<and>
   fst (get_yearly_demand example_heap ''B2'') =
     Some [(2015, Some 10), (2016, Some 0), (2017, Some 30)] \<and>
   fst (prepare_data example_heap ''B2'') = [(2015, Some 10), (2016, Some 0), (2017, Some 30)] \<and>
   resample_Y_sum (converted (product_rows example_heap ''B2'')) =
     Inr [(2013, Some 7), (2014, Some 0), (2015, Some 10), (2016, Some 0), (2017, Some 30)] \<and>
   fillna_ffill [(2013, Some 7), (2014, Some 0), (2015, Some 10), (2016, Some 0), (2017, Some 30)] =
     [(2013, Some 7), (2014, Some 0), (2015, Some 10), (2016, Some 0), (2017, Some 30)]"
proof -
  let ?r = "[(2013, Some 7), (2014, Some 0), (2015, Some 10), (2016, Some 0), (2017, Some 30)] :: series"
  have a: "data_ref < length example_heap"
    by (simp add: data_ref_def example_heap_def)
  have b: "fst (get_yearly_demand example_heap ''B2'') =
     Some [(2015, Some 10), (2016, Some 0), (2017, Some 30)]"
    by code_simp
  have c: "resample_Y_sum (converted (product_rows example_heap ''B2'')) = Inr ?r"
    by code_simp
  note t = prepare_matches_yearly [OF a b, of "''B2''" "converted (product_rows example_heap ''B2'')" ?r]
  have 1: "fst (prepare_data example_heap ''B2'') = [(2015, Some 10), (2016, Some 0), (2017, Some 30)]"
    using t by simp
  have 2: "fillna_ffill ?r = ?r"
    using t c by simp
  show ?thesis
    using a b c 1 2 by blast
qed

end
